theory Spec2Isabelle
  imports Complex_Main
begin

section \<open>Values: floats, samples, ANOVA tables\<close>

text \<open>
  The dashboard's only decision logic is \<^verbatim>\<open>perform_anova_for_variable\<close> and the loop
  over the selected variables that calls it. Both are orchestration around statsmodels,
  scipy and the plotting libraries. The embedding below follows the Python text line by
  line; the library functions are parameters (a record of functions), every one of them
  able to raise.

  A Python float is a finite value, an infinity or NaN. Two doubles compare as the
  reals they denote, and no double lies strictly between the real \<open>0.05\<close> and the double
  written \<^verbatim>\<open>0.05\<close>, so comparing against the real constant is exact. Every
  comparison with NaN is false.
\<close>

datatype pyfloat = Finite real | PosInf | NegInf | NaN

fun float_lt :: "pyfloat \<Rightarrow> pyfloat \<Rightarrow> bool" where
  "float_lt NaN _ = False"
| "float_lt _ NaN = False"
| "float_lt (Finite a) (Finite b) = (a < b)"
| "float_lt (Finite _) PosInf = True"
| "float_lt (Finite _) NegInf = False"
| "float_lt PosInf _ = False"
| "float_lt NegInf NegInf = False"
| "float_lt NegInf _ = True"

fun float_eq :: "pyfloat \<Rightarrow> pyfloat \<Rightarrow> bool" where
  "float_eq (Finite a) (Finite b) = (a = b)"
| "float_eq PosInf PosInf = True"
| "float_eq NegInf NegInf = True"
| "float_eq _ _ = False"

definition float_ge :: "pyfloat \<Rightarrow> pyfloat \<Rightarrow> bool" where
  "float_ge a b = (float_lt b a \<or> float_eq a b)"

fun isna :: "pyfloat \<Rightarrow> bool" where
  "isna NaN = True"
| "isna _ = False"

text \<open>
  The two-column frame \<^verbatim>\<open>df_analysis[[var_cat, col_preco]]\<close>: one row per
  observation, the factor cell (\<open>None\<close> is pandas' missing value) and the response
  cell (a float column, where NaN is the missing value). The conversion of a non-object
  factor column to the category dtype changes the representation of the column, not
  its values, its missing cells or the result of \<^verbatim>\<open>unique\<close>, \<^verbatim>\<open>nunique\<close> and
  \<^verbatim>\<open>==\<close>.
\<close>

type_synonym 'l frame = "('l option \<times> pyfloat) list"

definition dropna :: "'l frame \<Rightarrow> 'l frame" where
  "dropna df = filter (\<lambda>(x, y). x \<noteq> None \<and> \<not> isna y) df"

fun notna :: "'a option list \<Rightarrow> 'a list" where
  "notna [] = []"
| "notna (None # xs) = notna xs"
| "notna (Some x # xs) = x # notna xs"

text \<open>\<^verbatim>\<open>Series.nunique()\<close>: the number of distinct values, missing ones not counted.\<close>

definition nunique :: "'a option list \<Rightarrow> nat" where
  "nunique col = length (remdups (notna col))"

text \<open>\<^verbatim>\<open>Series.unique()\<close>: the distinct cells in order of first appearance.\<close>

definition unique :: "'a list \<Rightarrow> 'a list" where
  "unique col = rev (remdups (rev col))"

text \<open>\<^verbatim>\<open>df_var[var_cat] == categoria\<close>: a missing cell equals nothing.\<close>

fun cell_eq :: "'a option \<Rightarrow> 'a option \<Rightarrow> bool" where
  "cell_eq (Some a) (Some b) = (a = b)"
| "cell_eq _ _ = False"

definition dropna_series :: "pyfloat list \<Rightarrow> pyfloat list" where
  "dropna_series ys = filter (\<lambda>y. \<not> isna y) ys"

text \<open>
  \<^verbatim>\<open>grupos\<close> and \<^verbatim>\<open>grupos_validos\<close> of the source (lines 124 and 125).
\<close>

definition grupos :: "'l frame \<Rightarrow> pyfloat list list" where
  "grupos df_var =
     map (\<lambda>categoria. dropna_series (map snd (filter (\<lambda>(x, y). cell_eq x categoria) df_var)))
         (unique (map fst df_var))"

definition grupos_validos :: "'l frame \<Rightarrow> pyfloat list list" where
  "grupos_validos df_var = filter (\<lambda>g. length g \<ge> 2) (grupos df_var)"

text \<open>
  The table returned by \<^verbatim>\<open>anova_lm\<close>: an index of row labels and the four columns.
  \<^verbatim>\<open>.loc[label, 'PR(>F)']\<close> is a scalar when one row carries the label and a Series
  of all matching entries when the label is duplicated.
\<close>

record anova_row =
  sum_sq :: pyfloat
  df_col :: pyfloat
  F_col :: pyfloat
  PR_F :: pyfloat

type_synonym anova_tbl = "(string \<times> anova_row) list"

datatype pvalue = PNone | PScalar pyfloat | PSeries "pyfloat list"

definition loc_PR :: "anova_tbl \<Rightarrow> string \<Rightarrow> pvalue" where
  "loc_PR tbl label =
     (case map (\<lambda>(l, r). PR_F r) (filter (\<lambda>(l, r). l = label) tbl) of
        [p] \<Rightarrow> PScalar p
      | ps \<Rightarrow> PSeries ps)"

text \<open>Lines 82 to 86.\<close>

definition select_p_valor :: "anova_tbl \<Rightarrow> string \<Rightarrow> pvalue" where
  "select_p_valor tbl label =
     (if label \<in> set (map fst tbl) then loc_PR tbl label
      else if tbl \<noteq> [] then PScalar (PR_F (snd (hd tbl)))
      else PNone)"

text \<open>The result of \<^verbatim>\<open>scipy.stats.anderson\<close>.\<close>

record anderson_result =
  statistic :: pyfloat
  critical_values :: "pyfloat list"
  significance_level :: "pyfloat list"

text \<open>Decimal digits, for the text of numpy's IndexError.\<close>

fun str_nat :: "nat \<Rightarrow> string" where
  "str_nat n =
     (if n < 10 then [char_of (48 + n)]
      else str_nat (n div 10) @ [char_of (48 + n mod 10)])"

declare str_nat.simps [simp del]

text \<open>
  \<^verbatim>\<open>list.index\<close>: the first position holding an equal float, or ValueError. The only
  call in the source looks for 5.0, which is the value the message names.
\<close>

fun index_from :: "nat \<Rightarrow> pyfloat list \<Rightarrow> pyfloat \<Rightarrow> string + nat" where
  "index_from i [] v = Inl ''5.0 is not in list''"
| "index_from i (x # xs) v = (if float_eq x v then Inr i else index_from (Suc i) xs v)"

definition list_index :: "pyfloat list \<Rightarrow> pyfloat \<Rightarrow> string + nat" where
  "list_index xs v = index_from 0 xs v"

text \<open>Indexing a numpy array with a non-negative position.\<close>

definition np_getitem :: "pyfloat list \<Rightarrow> nat \<Rightarrow> string + pyfloat" where
  "np_getitem xs i =
     (if i < length xs then Inr (xs ! i)
      else Inl (''index '' @ str_nat i @ '' is out of bounds for axis 0 with size ''
                @ str_nat (length xs)))"

section \<open>The Decision Record\<close>

text \<open>
  The dictionary \<^verbatim>\<open>results\<close>. A key that is not in the dictionary is \<open>None\<close>;
  \<^verbatim>\<open>p_valor_anova\<close> can be in the dictionary with the Python value \<^verbatim>\<open>None\<close>, which
  is \<open>Some PNone\<close>. Figures are known by their pyplot number.
\<close>

record results =
  var_cat :: string
  plots :: "string \<rightharpoonup> nat"
  error :: "string option"
  anova_table :: "anova_tbl option"
  p_valor_anova :: "pvalue option"
  residuos_count :: "nat option"
  shapiro_test :: "(pyfloat \<times> pyfloat) option"
  anderson_test :: "anderson_result option"
  normalidade_ok :: "bool option"
  levene_test :: "(pyfloat \<times> pyfloat) option"
  homocedasticidade_ok :: "bool option"
  kruskal_test :: "(pyfloat \<times> pyfloat) option"

text \<open>The message of line 74, in UTF-8.\<close>

definition insufficient_msg :: string where
  "insufficient_msg =
     ''Dados insuficientes ou poucos n'' @ [CHR 0xC3, CHR 0xAD] @ ''veis para an''
     @ [CHR 0xC3, CHR 0xA1] @ ''lise ap'' @ [CHR 0xC3, CHR 0xB3] @ ''s limpeza.''"

section \<open>The libraries and the world\<close>

text \<open>
  statsmodels, scipy, pandas' grouped median and the drawing calls are not part of the
  repository. Each is a field of the record below; a call returns \<open>Inr\<close> its result or
  \<open>Inl\<close> the text \<^verbatim>\<open>str(e)\<close> of the exception it raises. The statistical functions
  are functions of their arguments alone (scipy and statsmodels draw no random numbers
  in these calls); the drawing calls return nothing that the analysis reads.
\<close>

record ('l, 'm) stats_lib =
  ols_fit :: "string \<Rightarrow> 'l frame \<Rightarrow> string + 'm"
  anova_lm :: "'m \<Rightarrow> string + anova_tbl"
  resid :: "'m \<Rightarrow> pyfloat list"
  shapiro :: "pyfloat list \<Rightarrow> string + (pyfloat \<times> pyfloat)"
  anderson :: "pyfloat list \<Rightarrow> string + anderson_result"
  levene :: "pyfloat list list \<Rightarrow> string + (pyfloat \<times> pyfloat)"
  kruskal :: "pyfloat list list \<Rightarrow> string + (pyfloat \<times> pyfloat)"
  draw_normalidade :: "pyfloat list \<Rightarrow> string \<Rightarrow> string + unit"
  median_order :: "'l frame \<Rightarrow> string + 'l option list"
  draw_boxplot :: "'l frame \<Rightarrow> 'l option list option \<Rightarrow> string + unit"

text \<open>
  What lives outside the function: pyplot's registry of figures (a new figure gets the
  next number) and, as a ghost, the list of library calls made so far, which is what
  "is computed" and "no fit is attempted" are stated about.
\<close>

datatype ('l, 'm) lib_call =
    Call_ols string "'l frame"
  | Call_anova_lm 'm
  | Call_shapiro "pyfloat list"
  | Call_anderson "pyfloat list"
  | Call_levene "pyfloat list list"
  | Call_kruskal "pyfloat list list"
  | Call_draw_normalidade "pyfloat list" string
  | Call_median_order "'l frame"
  | Call_draw_boxplot "'l frame" "'l option list option"

record ('l, 'm) world =
  figs :: nat
  calls :: "('l, 'm) lib_call list"

text \<open>
  The body of the \<^verbatim>\<open>try\<close> block runs in the state (\<^verbatim>\<open>results\<close>, world) and ends
  with a value or with an exception. The state reached when the exception is raised is
  kept: what was stored in \<^verbatim>\<open>results\<close> before stays there.
\<close>

type_synonym ('l, 'm) st = "results \<times> ('l, 'm) world"

type_synonym ('l, 'm, 'a) comp = "('l, 'm) st \<Rightarrow> (string + 'a) \<times> ('l, 'm) st"

definition returnE :: "'a \<Rightarrow> ('l, 'm, 'a) comp" where
  "returnE x = (\<lambda>s. (Inr x, s))"

definition bindE :: "('l, 'm, 'a) comp \<Rightarrow> ('a \<Rightarrow> ('l, 'm, 'b) comp) \<Rightarrow> ('l, 'm, 'b) comp" where
  "bindE m f = (\<lambda>s. case m s of (Inl e, s') \<Rightarrow> (Inl e, s') | (Inr a, s') \<Rightarrow> f a s')"

text \<open>A library call: logged, then its value or its exception.\<close>

definition call :: "('l, 'm) lib_call \<Rightarrow> string + 'a \<Rightarrow> ('l, 'm, 'a) comp" where
  "call c r = (\<lambda>(res, w). (r, (res, w\<lparr>calls := calls w @ [c]\<rparr>)))"

text \<open>An assignment to a key of \<^verbatim>\<open>results\<close>.\<close>

definition store :: "(results \<Rightarrow> results) \<Rightarrow> ('l, 'm, unit) comp" where
  "store f = (\<lambda>(res, w). (Inr (), (f res, w)))"

text \<open>A Python expression that can raise without calling a library.\<close>

definition lift :: "string + 'a \<Rightarrow> ('l, 'm, 'a) comp" where
  "lift r = (\<lambda>s. (r, s))"

text \<open>\<^verbatim>\<open>plt.subplots\<close>: a new figure, numbered after the last one.\<close>

definition subplots :: "('l, 'm, nat) comp" where
  "subplots = (\<lambda>(res, w). (Inr (Suc (figs w)), (res, w\<lparr>figs := Suc (figs w)\<rparr>)))"

section \<open>The Selector\<close>

text \<open>
  The two strings built from the column names: the model formula of line 77 and the
  label of the factor's row, written \<^verbatim>\<open>f'C({var_cat})'\<close> in lines 83 and 84.
\<close>

definition formula_of :: "string \<Rightarrow> string \<Rightarrow> string" where
  "formula_of col_preco vcat = col_preco @ '' ~ C('' @ vcat @ '')''"

definition effect_label :: "string \<Rightarrow> string" where
  "effect_label vcat = ''C('' @ vcat @ '')''"

text \<open>Lines 79 to 90: the fit, the Type II table, the p-value, the residuals.\<close>

definition fit_anova ::
  "('l, 'm) stats_lib \<Rightarrow> 'l frame \<Rightarrow> string \<Rightarrow> string \<Rightarrow> ('l, 'm, pyfloat list) comp" where
  "fit_anova lib df_var vcat formula =
     bindE (call (Call_ols formula df_var) (ols_fit lib formula df_var)) (\<lambda>modelo.
     bindE (call (Call_anova_lm modelo) (anova_lm lib modelo)) (\<lambda>tbl.
     bindE (store (\<lambda>r. r\<lparr>anova_table := Some tbl\<rparr>)) (\<lambda>_.
     bindE (store (\<lambda>r. r\<lparr>p_valor_anova :=
                          Some (select_p_valor tbl (effect_label vcat))\<rparr>)) (\<lambda>_.
     bindE (store (\<lambda>r. r\<lparr>residuos_count := Some (length (resid lib modelo))\<rparr>)) (\<lambda>_.
     returnE (resid lib modelo))))))"

text \<open>Lines 93 to 106.\<close>

definition check_normalidade ::
  "('l, 'm) stats_lib \<Rightarrow> pyfloat list \<Rightarrow> ('l, 'm, bool) comp" where
  "check_normalidade lib residuos =
     bindE
       (if length residuos \<ge> 3 then
          if length residuos \<le> 5000 then
            bindE (call (Call_shapiro residuos) (shapiro lib residuos)) (\<lambda>(stat_shapiro, p_shapiro).
            bindE (store (\<lambda>r. r\<lparr>shapiro_test := Some (stat_shapiro, p_shapiro)\<rparr>)) (\<lambda>_.
            returnE (if float_ge p_shapiro (Finite 0.05) then True else False)))
          else
            bindE (call (Call_anderson residuos) (anderson lib residuos)) (\<lambda>ad_result.
            bindE (store (\<lambda>r. r\<lparr>anderson_test := Some ad_result\<rparr>)) (\<lambda>_.
            bindE (lift (list_index (significance_level ad_result) (Finite 5))) (\<lambda>sig_level_idx.
            bindE (lift (np_getitem (critical_values ad_result) sig_level_idx)) (\<lambda>crit.
            returnE (if float_lt (statistic ad_result) crit then True else False)))))
        else returnE False)
       (\<lambda>ok. bindE (store (\<lambda>r. r\<lparr>normalidade_ok := Some ok\<rparr>)) (\<lambda>_. returnE ok))"

text \<open>
  Lines 109 to 120. The histogram and the Q-Q plot of lines 111 to 115 are one drawing
  call; writing a text into empty axes and \<^verbatim>\<open>tight_layout\<close> are taken not to raise.
\<close>

definition plot_normalidade ::
  "('l, 'm) stats_lib \<Rightarrow> pyfloat list \<Rightarrow> string \<Rightarrow> ('l, 'm, unit) comp" where
  "plot_normalidade lib residuos vcat =
     bindE subplots (\<lambda>fig_norm.
     bindE (if length residuos > 1
            then call (Call_draw_normalidade residuos vcat) (draw_normalidade lib residuos vcat)
            else returnE ()) (\<lambda>_.
     store (\<lambda>r. r\<lparr>plots := (plots r)(''normalidade'' \<mapsto> fig_norm)\<rparr>)))"

text \<open>Lines 123 to 130.\<close>

definition check_homocedasticidade ::
  "('l, 'm) stats_lib \<Rightarrow> 'l frame \<Rightarrow> ('l, 'm, bool) comp" where
  "check_homocedasticidade lib df_var =
     bindE
       (if length (grupos_validos df_var) \<ge> 2 then
          bindE (call (Call_levene (grupos_validos df_var)) (levene lib (grupos_validos df_var)))
            (\<lambda>(stat_levene, p_levene).
          bindE (store (\<lambda>r. r\<lparr>levene_test := Some (stat_levene, p_levene)\<rparr>)) (\<lambda>_.
          returnE (if float_ge p_levene (Finite 0.05) then True else False)))
        else returnE False)
       (\<lambda>ok. bindE (store (\<lambda>r. r\<lparr>homocedasticidade_ok := Some ok\<rparr>)) (\<lambda>_. returnE ok))"

text \<open>Lines 133 to 136.\<close>

definition run_kruskal ::
  "('l, 'm) stats_lib \<Rightarrow> 'l frame \<Rightarrow> bool \<Rightarrow> bool \<Rightarrow> ('l, 'm, unit) comp" where
  "run_kruskal lib df_var normal_ok homoc_ok =
     (if \<not> normal_ok \<or> \<not> homoc_ok then
        if length (grupos_validos df_var) \<ge> 2 then
          bindE (call (Call_kruskal (grupos_validos df_var)) (kruskal lib (grupos_validos df_var)))
            (\<lambda>(stat_kruskal, p_kruskal).
          store (\<lambda>r. r\<lparr>kruskal_test := Some (stat_kruskal, p_kruskal)\<rparr>))
        else returnE ()
      else returnE ())"

text \<open>
  Lines 139 to 156. The inner \<^verbatim>\<open>try\<close> swallows an exception of the grouped median
  and falls back to the order of appearance.
\<close>

definition order_boxplot :: "('l, 'm) stats_lib \<Rightarrow> 'l frame \<Rightarrow> ('l, 'm, 'l option list option) comp" where
  "order_boxplot lib df_var =
     (if nunique (map fst df_var) > 5 \<and> nunique (map fst df_var) < 50 then
        (\<lambda>s. case call (Call_median_order df_var) (median_order lib df_var) s of
                (Inl e, s') \<Rightarrow> (Inr (Some (unique (map fst df_var))), s')
              | (Inr ord, s') \<Rightarrow> (Inr (Some ord), s'))
      else returnE None)"

definition plot_boxplot :: "('l, 'm) stats_lib \<Rightarrow> 'l frame \<Rightarrow> ('l, 'm, unit) comp" where
  "plot_boxplot lib df_var =
     bindE subplots (\<lambda>fig_box.
     bindE (order_boxplot lib df_var) (\<lambda>ord.
     bindE (call (Call_draw_boxplot df_var ord) (draw_boxplot lib df_var ord)) (\<lambda>_.
     store (\<lambda>r. r\<lparr>plots := (plots r)(''boxplot'' \<mapsto> fig_box)\<rparr>))))"

text \<open>The body of the \<^verbatim>\<open>try\<close> block, lines 79 to 156.\<close>

definition try_body ::
  "('l, 'm) stats_lib \<Rightarrow> 'l frame \<Rightarrow> string \<Rightarrow> string \<Rightarrow> ('l, 'm, unit) comp" where
  "try_body lib df_var vcat formula =
     bindE (fit_anova lib df_var vcat formula) (\<lambda>residuos.
     bindE (check_normalidade lib residuos) (\<lambda>normal_ok.
     bindE (plot_normalidade lib residuos vcat) (\<lambda>_.
     bindE (check_homocedasticidade lib df_var) (\<lambda>homoc_ok.
     bindE (run_kruskal lib df_var normal_ok homoc_ok) (\<lambda>_.
     plot_boxplot lib df_var)))))"

definition new_results :: "string \<Rightarrow> results" where
  "new_results vcat =
     \<lparr>var_cat = vcat, plots = Map.empty, error = None, anova_table = None,
      p_valor_anova = None, residuos_count = None, shapiro_test = None,
      anderson_test = None, normalidade_ok = None, levene_test = None,
      homocedasticidade_ok = None, kruskal_test = None\<rparr>"

text \<open>
  \<^verbatim>\<open>perform_anova_for_variable\<close>, lines 61 to 160. It returns the record and the world
  it leaves behind.
\<close>

definition perform_anova_for_variable ::
  "('l, 'm) stats_lib \<Rightarrow> 'l frame \<Rightarrow> string \<Rightarrow> string \<Rightarrow> ('l, 'm) world
     \<Rightarrow> results \<times> ('l, 'm) world" where
  "perform_anova_for_variable lib df_analysis vcat col_preco w =
     (let df_var = dropna df_analysis in
      if nunique (map fst df_var) < 2 \<or> length df_var < 10
      then (new_results vcat\<lparr>error := Some insufficient_msg\<rparr>, w)
      else
        (case try_body lib df_var vcat (formula_of col_preco vcat) (new_results vcat, w) of
           (Inl e, (r, w')) \<Rightarrow> (r\<lparr>error := Some e\<rparr>, w')
         | (Inr _, (r, w')) \<Rightarrow> (r, w')))"

section \<open>The loop over the selected variables\<close>

text \<open>
  Lines 211 to 267 render a record that has no error. They run outside any \<^verbatim>\<open>try\<close>.
  The calls of streamlit are output statements: each adds an element to the page and is
  taken not to raise. What can raise is Python's own: at line 217 the comparison
  \<^verbatim>\<open>p_anova < 0.05\<close> of a Series is a Series, and the truth value of a Series raises
  ValueError. The rendering returns the elements written so far and the exception, if
  one was raised.
\<close>

datatype element =
    Heading_anova
  | Anova_table_shown anova_tbl
  | Anova_significant pyfloat
  | Anova_not_significant pyfloat
  | Heading_normalidade
  | Shapiro_line pyfloat pyfloat
  | Anderson_line pyfloat
  | Residuals_normal
  | Residuals_not_normal
  | Figure nat
  | Heading_homocedasticidade
  | Levene_line pyfloat pyfloat
  | Variances_homogeneous
  | Variances_not_homogeneous
  | Levene_not_performed
  | Heading_kruskal
  | Kruskal_line pyfloat pyfloat
  | Kruskal_significant
  | Kruskal_not_significant
  | Heading_boxplot
  | Separator

definition series_truth_msg :: string where
  "series_truth_msg =
     ''The truth value of a Series is ambiguous. Use a.empty, a.bool(), a.item(), a.any() or a.all().''"

text \<open>Lines 212 to 222. \<^verbatim>\<open>.get\<close> gives None for a missing key.\<close>

definition render_anova :: "results \<Rightarrow> element list \<times> string option" where
  "render_anova r =
     (case anova_table r of
        None \<Rightarrow> ([], None)
      | Some tbl \<Rightarrow>
          (case (case p_valor_anova r of None \<Rightarrow> PNone | Some p \<Rightarrow> p) of
             PNone \<Rightarrow> ([Heading_anova, Anova_table_shown tbl], None)
           | PScalar p_anova \<Rightarrow>
               ([Heading_anova, Anova_table_shown tbl,
                 if float_lt p_anova (Finite 0.05) then Anova_significant p_anova
                 else Anova_not_significant p_anova], None)
           | PSeries ps \<Rightarrow> ([Heading_anova, Anova_table_shown tbl], Some series_truth_msg)))"

text \<open>Lines 225 to 262, inside the expander.\<close>

definition render_pressupostos :: "results \<Rightarrow> element list" where
  "render_pressupostos r =
     [Heading_normalidade]
     @ (case shapiro_test r of
          Some (stat, p_val) \<Rightarrow> [Shapiro_line stat p_val]
        | None \<Rightarrow> (case anderson_test r of
                     Some ad_res \<Rightarrow> [Anderson_line (statistic ad_res)]
                   | None \<Rightarrow> []))
     @ [if normalidade_ok r = Some True then Residuals_normal else Residuals_not_normal]
     @ (case plots r ''normalidade'' of Some fig \<Rightarrow> [Figure fig] | None \<Rightarrow> [])
     @ [Heading_homocedasticidade]
     @ (case levene_test r of
          Some (stat_l, p_l) \<Rightarrow>
            [Levene_line stat_l p_l,
             if homocedasticidade_ok r = Some True then Variances_homogeneous
             else Variances_not_homogeneous]
        | None \<Rightarrow> [Levene_not_performed])
     @ (case kruskal_test r of
          Some (stat_k, p_k) \<Rightarrow>
            [Heading_kruskal, Kruskal_line stat_k p_k,
             if float_lt p_k (Finite 0.05) then Kruskal_significant else Kruskal_not_significant]
        | None \<Rightarrow> [])"

text \<open>Lines 264 to 268.\<close>

definition render_boxplot :: "results \<Rightarrow> element list" where
  "render_boxplot r =
     (case plots r ''boxplot'' of Some fig \<Rightarrow> [Heading_boxplot, Figure fig] | None \<Rightarrow> [])
     @ [Separator]"

definition render :: "results \<Rightarrow> element list \<times> string option" where
  "render r =
     (case render_anova r of
        (page, Some e) \<Rightarrow> (page, Some e)
      | (page, None) \<Rightarrow> (page @ render_pressupostos r @ render_boxplot r, None))"

text \<open>
  Lines 194 to 268, one pass of the loop. The data set gives, for each selectable
  variable, its column beside the price column. A variable is skipped with a warning
  (line 202), shown with the error of its record (line 208), or rendered; when the
  rendering raises, nothing catches the exception.
\<close>

datatype outcome =
    Skipped
  | Failed string
  | Rendered results "element list"
  | Crashed results "element list" string

fun is_crashed :: "outcome \<Rightarrow> bool" where
  "is_crashed (Crashed r page e) = True"
| "is_crashed _ = False"

definition analyse_variable ::
  "('l, 'm) stats_lib \<Rightarrow> (string \<Rightarrow> 'l frame) \<Rightarrow> string \<Rightarrow> string \<Rightarrow> ('l, 'm) world
     \<Rightarrow> outcome \<times> ('l, 'm) world" where
  "analyse_variable lib df coluna_preco var_analisada w =
     (let df_analise_var = dropna (df var_analisada) in
      if df_analise_var = [] \<or> nunique (map fst df_analise_var) < 2 then (Skipped, w)
      else
        (case perform_anova_for_variable lib df_analise_var var_analisada coluna_preco w of
           (resultados_var, w') \<Rightarrow>
             (case error resultados_var of
                Some e \<Rightarrow> (Failed e, w')
              | None \<Rightarrow>
                  (case render resultados_var of
                     (page, None) \<Rightarrow> (Rendered resultados_var page, w')
                   | (page, Some e) \<Rightarrow> (Crashed resultados_var page e, w')))))"

text \<open>
  The loop. After a skipped variable and after an error record it goes on
  (\<^verbatim>\<open>continue\<close>); an exception of the rendering leaves the loop and ends the script, so
  the variables after it get no outcome.
\<close>

fun analysis_loop ::
  "('l, 'm) stats_lib \<Rightarrow> (string \<Rightarrow> 'l frame) \<Rightarrow> string \<Rightarrow> string list \<Rightarrow> ('l, 'm) world
     \<Rightarrow> (string \<times> outcome) list \<times> ('l, 'm) world" where
  "analysis_loop lib df coluna_preco [] w = ([], w)"
| "analysis_loop lib df coluna_preco (var_analisada # rest) w =
     (case analyse_variable lib df coluna_preco var_analisada w of
        (out, w') \<Rightarrow>
          if is_crashed out then ([(var_analisada, out)], w')
          else
            (case analysis_loop lib df coluna_preco rest w' of
               (outs, w'') \<Rightarrow> ((var_analisada, out) # outs, w'')))"

section \<open>Vocabulary of the specification\<close>

text \<open>
  A sample is accepted when, after the rows with a missing factor or a missing response
  are removed, at least two distinct levels and at least ten observations remain.
\<close>

definition accepted :: "'l frame \<Rightarrow> bool" where
  "accepted df = (2 \<le> card (set (notna (map fst (dropna df)))) \<and> 10 \<le> length (dropna df))"

text \<open>The library calls made between two worlds.\<close>

definition new_calls :: "('l, 'm) world \<Rightarrow> ('l, 'm) world \<Rightarrow> ('l, 'm) lib_call list" where
  "new_calls w w' = drop (length (calls w)) (calls w')"

definition is_levene :: "('l, 'm) lib_call \<Rightarrow> bool" where
  "is_levene c = (case c of Call_levene _ \<Rightarrow> True | _ \<Rightarrow> False)"

definition is_kruskal :: "('l, 'm) lib_call \<Rightarrow> bool" where
  "is_kruskal c = (case c of Call_kruskal _ \<Rightarrow> True | _ \<Rightarrow> False)"

definition is_boxplot_call :: "('l, 'm) lib_call \<Rightarrow> bool" where
  "is_boxplot_call c =
     (case c of Call_median_order _ \<Rightarrow> True | Call_draw_boxplot _ _ \<Rightarrow> True | _ \<Rightarrow> False)"

text \<open>The value a call returns, if it returns.\<close>

definition result_of :: "string + 'a \<Rightarrow> 'a option" where
  "result_of x = (case x of Inl e \<Rightarrow> None | Inr a \<Rightarrow> Some a)"

text \<open>
  The trigger of the non-parametric fallback, read from the record: both verdicts are
  stored and one of them is false.
\<close>

definition fallback_due :: "results \<Rightarrow> bool" where
  "fallback_due r =
     (case (normalidade_ok r, homocedasticidade_ok r) of
        (Some n, Some h) \<Rightarrow> \<not> n \<or> \<not> h
      | _ \<Rightarrow> False)"

text \<open>
  The distinct levels of a frame in order of first appearance, and the responses
  observed at one level, in row order.
\<close>

definition levels :: "'l frame \<Rightarrow> 'l list" where
  "levels df = unique (notna (map fst df))"

definition observations :: "'l frame \<Rightarrow> 'l \<Rightarrow> pyfloat list" where
  "observations df l = map snd (filter (\<lambda>(x, y). x = Some l) df)"

text \<open>
  The rows of the table that carry a label, and the p-values a reported value stands for.
\<close>

definition rows_labelled :: "anova_tbl \<Rightarrow> string \<Rightarrow> anova_row list" where
  "rows_labelled tbl label = map snd (filter (\<lambda>(l, row). l = label) tbl)"

fun reported :: "pvalue \<Rightarrow> pyfloat list" where
  "reported PNone = []"
| "reported (PScalar p) = [p]"
| "reported (PSeries ps) = ps"

text \<open>
  The verdict drawn from an Anderson-Darling result (lines 103 to 105), when the 5%
  level is listed and has a critical value.
\<close>

definition ad_verdict :: "anderson_result \<Rightarrow> bool option" where
  "ad_verdict ad =
     (case list_index (significance_level ad) (Finite 5) of
        Inl e \<Rightarrow> None
      | Inr i \<Rightarrow> (case np_getitem (critical_values ad) i of
                   Inl e \<Rightarrow> None
                 | Inr crit \<Rightarrow> Some (float_lt (statistic ad) crit)))"

definition is_normality :: "('l, 'm) lib_call \<Rightarrow> bool" where
  "is_normality c = (case c of Call_shapiro _ \<Rightarrow> True | Call_anderson _ \<Rightarrow> True | _ \<Rightarrow> False)"

text \<open>
  The exception a logged call raises, if it raises. The call of the grouped median is
  the one call whose exception the code swallows (lines 143 to 146).
\<close>

definition exn_of :: "string + 'a \<Rightarrow> string option" where
  "exn_of x = (case x of Inl e \<Rightarrow> Some e | Inr a \<Rightarrow> None)"

definition raised_by :: "('l, 'm) stats_lib \<Rightarrow> ('l, 'm) lib_call \<Rightarrow> string option" where
  "raised_by lib c =
     (case c of
        Call_ols formula data \<Rightarrow> exn_of (ols_fit lib formula data)
      | Call_anova_lm modelo \<Rightarrow> exn_of (anova_lm lib modelo)
      | Call_shapiro xs \<Rightarrow> exn_of (shapiro lib xs)
      | Call_anderson xs \<Rightarrow> exn_of (anderson lib xs)
      | Call_levene gs \<Rightarrow> exn_of (levene lib gs)
      | Call_kruskal gs \<Rightarrow> exn_of (kruskal lib gs)
      | Call_draw_normalidade xs v \<Rightarrow> exn_of (draw_normalidade lib xs v)
      | Call_median_order data \<Rightarrow> exn_of (median_order lib data)
      | Call_draw_boxplot data ord \<Rightarrow> exn_of (draw_boxplot lib data ord))"

definition is_median_order :: "('l, 'm) lib_call \<Rightarrow> bool" where
  "is_median_order c = (case c of Call_median_order _ \<Rightarrow> True | _ \<Rightarrow> False)"

text \<open>
  The statistical content of a record: every key but the figure handles, of which only
  the names of the plots present are kept.
\<close>

type_synonym stats =
  "string \<times> string option \<times> anova_tbl option \<times> pvalue option \<times> nat option
   \<times> (pyfloat \<times> pyfloat) option \<times> anderson_result option \<times> bool option
   \<times> (pyfloat \<times> pyfloat) option \<times> bool option \<times> (pyfloat \<times> pyfloat) option \<times> string set"

definition stats_of :: "results \<Rightarrow> stats" where
  "stats_of r =
     (var_cat r, error r, anova_table r, p_valor_anova r, residuos_count r, shapiro_test r,
      anderson_test r, normalidade_ok r, levene_test r, homocedasticidade_ok r, kruskal_test r,
      dom (plots r))"

text \<open>
  The loop skips a variable whose column, cleaned, is empty or has fewer than two
  levels (line 201).
\<close>

definition loop_skips :: "'l frame \<Rightarrow> bool" where
  "loop_skips d = (dropna d = [] \<or> card (set (notna (map fst (dropna d)))) < 2)"

text \<open>
  An outcome is the one that the Selector's record on the variable's own data \<open>d\<close>,
  computed from a world \<open>w0\<close>, calls for: skipped exactly when the loop skips the data,
  failed with \<open>e\<close> exactly when the record's error is \<open>e\<close>, and otherwise built from a
  record without error that has the statistical content of the Selector's record and is
  rendered fully or up to the exception of the rendering.
\<close>

definition outcome_of_selector ::
  "('l, 'm) stats_lib \<Rightarrow> 'l frame \<Rightarrow> string \<Rightarrow> string \<Rightarrow> ('l, 'm) world \<Rightarrow> outcome \<Rightarrow> bool" where
  "outcome_of_selector lib d v coluna_preco w0 out =
     ((out = Skipped \<longleftrightarrow> loop_skips d)
      \<and> (\<forall>e. out = Failed e \<longleftrightarrow>
             \<not> loop_skips d
             \<and> error (fst (perform_anova_for_variable lib (dropna d) v coluna_preco w0)) = Some e)
      \<and> (\<forall>r page. out = Rendered r page \<longrightarrow>
             \<not> loop_skips d \<and> error r = None \<and> render r = (page, None)
             \<and> stats_of r = stats_of (fst (perform_anova_for_variable lib (dropna d) v coluna_preco w0)))
      \<and> (\<forall>r page x. out = Crashed r page x \<longrightarrow>
             \<not> loop_skips d \<and> error r = None \<and> render r = (page, Some x)
             \<and> stats_of r = stats_of (fst (perform_anova_for_variable lib (dropna d) v coluna_preco w0))))"

section \<open>Assertions about the body of the try block\<close>

text \<open>
  A triple for a computation that can raise: from a state satisfying \<open>P\<close> it ends
  normally in a state satisfying \<open>Q\<close> or raises in a state satisfying \<open>E\<close>.
  \<open>since k I\<close> reads an assertion \<open>I\<close> on the record and on the calls logged after the
  first \<open>k\<close>.
\<close>

definition hoareE ::
  "(('l, 'm) st \<Rightarrow> bool) \<Rightarrow> ('l, 'm, 'a) comp \<Rightarrow> ('a \<Rightarrow> ('l, 'm) st \<Rightarrow> bool)
     \<Rightarrow> (string \<Rightarrow> ('l, 'm) st \<Rightarrow> bool) \<Rightarrow> bool" where
  "hoareE P m Q E =
     (\<forall>s. P s \<longrightarrow> (case m s of (Inl e, s') \<Rightarrow> E e s' | (Inr a, s') \<Rightarrow> Q a s'))"

definition since ::
  "nat \<Rightarrow> (results \<Rightarrow> ('l, 'm) lib_call list \<Rightarrow> bool) \<Rightarrow> ('l, 'm) st \<Rightarrow> bool" where
  "since k I s = (k \<le> length (calls (snd s)) \<and> I (fst s) (drop k (calls (snd s))))"

text \<open>
  What every record the Selector returns satisfies, whatever raised: Levene's test and
  its verdict as a function of the point reached and the valid groups, the
  Kruskal-Wallis test as a function of the stored verdicts and the valid groups.
\<close>

definition levene_part ::
  "('l, 'm) stats_lib \<Rightarrow> pyfloat list list \<Rightarrow> results \<Rightarrow> ('l, 'm) lib_call list \<Rightarrow> bool" where
  "levene_part lib gv r t =
     (filter is_levene t =
        (if plots r ''normalidade'' \<noteq> None \<and> 2 \<le> length gv then [Call_levene gv] else [])
      \<and> levene_test r =
        (if plots r ''normalidade'' \<noteq> None \<and> 2 \<le> length gv then result_of (levene lib gv) else None)
      \<and> homocedasticidade_ok r =
        (if plots r ''normalidade'' \<noteq> None
         then if 2 \<le> length gv
              then map_option (\<lambda>(s, p). float_ge p (Finite 0.05)) (result_of (levene lib gv))
              else Some False
         else None))"

definition kruskal_part ::
  "('l, 'm) stats_lib \<Rightarrow> pyfloat list list \<Rightarrow> results \<Rightarrow> ('l, 'm) lib_call list \<Rightarrow> bool" where
  "kruskal_part lib gv r t =
     (filter is_kruskal t = (if fallback_due r \<and> 2 \<le> length gv then [Call_kruskal gv] else [])
      \<and> kruskal_test r =
        (if fallback_due r \<and> 2 \<le> length gv then result_of (kruskal lib gv) else None))"

definition verdicts_inv ::
  "('l, 'm) stats_lib \<Rightarrow> pyfloat list list \<Rightarrow> results \<Rightarrow> ('l, 'm) lib_call list \<Rightarrow> bool" where
  "verdicts_inv lib gv r t =
     (levene_part lib gv r t \<and> kruskal_part lib gv r t
      \<and> (plots r ''normalidade'' = None \<or> normalidade_ok r \<noteq> None))"

text \<open>The points of the body before, between and after the two checks.\<close>

definition untouched :: "results \<Rightarrow> ('l, 'm) lib_call list \<Rightarrow> bool" where
  "untouched r t =
     (plots r ''normalidade'' = None \<and> homocedasticidade_ok r = None \<and> levene_test r = None
      \<and> kruskal_test r = None \<and> filter is_levene t = [] \<and> filter is_kruskal t = [])"

definition plotted :: "bool \<Rightarrow> results \<Rightarrow> ('l, 'm) lib_call list \<Rightarrow> bool" where
  "plotted n r t =
     (plots r ''normalidade'' \<noteq> None \<and> normalidade_ok r = Some n
      \<and> homocedasticidade_ok r = None \<and> levene_test r = None
      \<and> kruskal_test r = None \<and> filter is_levene t = [] \<and> filter is_kruskal t = [])"

definition homoc_done ::
  "('l, 'm) stats_lib \<Rightarrow> pyfloat list list \<Rightarrow> bool \<Rightarrow> bool \<Rightarrow> results
     \<Rightarrow> ('l, 'm) lib_call list \<Rightarrow> bool" where
  "homoc_done lib gv n h r t =
     (levene_part lib gv r t \<and> normalidade_ok r = Some n \<and> homocedasticidade_ok r = Some h
      \<and> plots r ''normalidade'' \<noteq> None \<and> kruskal_test r = None \<and> filter is_kruskal t = [])"

text \<open>
  The body after the fit and after the normality check, the handler of line 158, and
  what the later statements leave as it is.
\<close>

definition after_normalidade ::
  "('l, 'm) stats_lib \<Rightarrow> 'l frame \<Rightarrow> string \<Rightarrow> pyfloat list \<Rightarrow> bool \<Rightarrow> ('l, 'm, unit) comp" where
  "after_normalidade lib df_var vcat residuos =
     (\<lambda>normal_ok.
        bindE (plot_normalidade lib residuos vcat) (\<lambda>_.
        bindE (check_homocedasticidade lib df_var) (\<lambda>homoc_ok.
        bindE (run_kruskal lib df_var normal_ok homoc_ok) (\<lambda>_.
        plot_boxplot lib df_var))))"

definition after_fit ::
  "('l, 'm) stats_lib \<Rightarrow> 'l frame \<Rightarrow> string \<Rightarrow> pyfloat list \<Rightarrow> ('l, 'm, unit) comp" where
  "after_fit lib df_var vcat =
     (\<lambda>residuos.
        bindE (check_normalidade lib residuos) (after_normalidade lib df_var vcat residuos))"

definition finish :: "(string + unit) \<times> ('l, 'm) st \<Rightarrow> results \<times> ('l, 'm) world" where
  "finish x = (case x of (Inl e, (r, w')) \<Rightarrow> (r\<lparr>error := Some e\<rparr>, w') | (Inr _, (r, w')) \<Rightarrow> (r, w'))"

definition keeps :: "(('l, 'm) st \<Rightarrow> ('l, 'm) st \<Rightarrow> bool) \<Rightarrow> ('l, 'm, 'a) comp \<Rightarrow> bool" where
  "keeps F m = (\<forall>s. F s (snd (m s)))"

definition fit_kept :: "('l, 'm) st \<Rightarrow> ('l, 'm) st \<Rightarrow> bool" where
  "fit_kept s s' =
     (anova_table (fst s') = anova_table (fst s) \<and> p_valor_anova (fst s') = p_valor_anova (fst s)
      \<and> residuos_count (fst s') = residuos_count (fst s))"

definition normality_kept :: "('l, 'm) st \<Rightarrow> ('l, 'm) st \<Rightarrow> bool" where
  "normality_kept s s' =
     (shapiro_test (fst s') = shapiro_test (fst s) \<and> anderson_test (fst s') = anderson_test (fst s)
      \<and> normalidade_ok (fst s') = normalidade_ok (fst s)
      \<and> (\<exists>t. calls (snd s') = calls (snd s) @ t \<and> filter is_normality t = []))"

text \<open>The normality check, as a function of the number of residuals.\<close>

definition normality_facts ::
  "('l, 'm) stats_lib \<Rightarrow> pyfloat list \<Rightarrow> results \<Rightarrow> ('l, 'm) lib_call list \<Rightarrow> bool" where
  "normality_facts lib res r t =
     (if 3 \<le> length res then
        if length res \<le> 5000 then
          filter is_normality t = [Call_shapiro res] \<and> anderson_test r = None
          \<and> shapiro_test r = result_of (shapiro lib res)
          \<and> normalidade_ok r =
              map_option (\<lambda>(s, p). float_ge p (Finite 0.05)) (result_of (shapiro lib res))
        else
          filter is_normality t = [Call_anderson res] \<and> shapiro_test r = None
          \<and> anderson_test r = result_of (anderson lib res)
          \<and> normalidade_ok r = Option.bind (result_of (anderson lib res)) ad_verdict
      else
        filter is_normality t = [] \<and> shapiro_test r = None \<and> anderson_test r = None
        \<and> normalidade_ok r = Some False)"

text \<open>No logged call has raised; no logged call has raised anything but \<open>e\<close>.\<close>

definition quiet :: "('l, 'm) stats_lib \<Rightarrow> results \<Rightarrow> ('l, 'm) lib_call list \<Rightarrow> bool" where
  "quiet lib r t = (\<forall>c \<in> set t. is_median_order c \<or> raised_by lib c = None)"

definition failed ::
  "('l, 'm) stats_lib \<Rightarrow> string \<Rightarrow> results \<Rightarrow> ('l, 'm) lib_call list \<Rightarrow> bool" where
  "failed lib e r t =
     (\<forall>c \<in> set t. is_median_order c \<or> raised_by lib c = None \<or> raised_by lib c = Some e)"

text \<open>
  Two states with the same statistical content whose call logs grew by the same calls,
  and computations that cannot tell them apart.
\<close>

definition alike ::
  "('l, 'm) lib_call list \<Rightarrow> ('l, 'm) lib_call list \<Rightarrow> ('l, 'm) st \<Rightarrow> ('l, 'm) st \<Rightarrow> bool" where
  "alike c1 c2 s1 s2 =
     (stats_of (fst s1) = stats_of (fst s2)
      \<and> (\<exists>t. calls (snd s1) = c1 @ t \<and> calls (snd s2) = c2 @ t))"

definition world_blind :: "('l, 'm, 'a) comp \<Rightarrow> bool" where
  "world_blind m =
     (\<forall>c1 c2 s1 s2. alike c1 c2 s1 s2 \<longrightarrow>
        fst (m s1) = fst (m s2) \<and> alike c1 c2 (snd (m s1)) (snd (m s2)))"

section \<open>Concrete inputs\<close>

text \<open>
  Twelve rows of a factor with the levels 3 and 7, two of them with a missing cell, and a
  library whose calls all return: the fit, a table with the factor row and the residual
  row, ten residuals, a Shapiro-Wilk p-value of 0.01 and a Levene p-value of 1.
\<close>

definition sample12 :: "nat frame" where
  "sample12 =
     [(Some 3, Finite 100), (Some 3, Finite 110), (Some 3, Finite 120), (Some 3, Finite 130),
      (Some 3, Finite 140), (None, Finite 5), (Some 7, Finite 200), (Some 7, NaN),
      (Some 7, Finite 210), (Some 7, Finite 220), (Some 7, Finite 230), (Some 7, Finite 240)]"

definition clean10 :: "nat frame" where
  "clean10 =
     [(Some 3, Finite 100), (Some 3, Finite 110), (Some 3, Finite 120), (Some 3, Finite 130),
      (Some 3, Finite 140), (Some 7, Finite 200), (Some 7, Finite 210), (Some 7, Finite 220),
      (Some 7, Finite 230), (Some 7, Finite 240)]"

definition groups10 :: "pyfloat list list" where
  "groups10 =
     [[Finite 100, Finite 110, Finite 120, Finite 130, Finite 140],
      [Finite 200, Finite 210, Finite 220, Finite 230, Finite 240]]"

definition resid10 :: "pyfloat list" where
  "resid10 = [Finite (-20), Finite (-10), Finite 0, Finite 10, Finite 20,
              Finite (-20), Finite (-10), Finite 0, Finite 10, Finite 20]"

definition row_of :: "pyfloat \<Rightarrow> anova_row" where
  "row_of p = \<lparr>sum_sq = Finite 1, df_col = Finite 1, F_col = Finite 1, PR_F = p\<rparr>"

definition lib_ok :: "(nat, unit) stats_lib" where
  "lib_ok =
     \<lparr>ols_fit = (\<lambda>formula data. Inr ()),
      anova_lm = (\<lambda>modelo. Inr [(''C(housestyle)'', row_of (Finite 0.01)), (''Residual'', row_of NaN)]),
      resid = (\<lambda>modelo. resid10),
      shapiro = (\<lambda>xs. Inr (Finite 0.9, Finite 0.01)),
      anderson = (\<lambda>xs. Inl ''unused''),
      levene = (\<lambda>gs. Inr (Finite 0, Finite 1)),
      kruskal = (\<lambda>gs. Inr (Finite 6.8, Finite 0.009)),
      draw_normalidade = (\<lambda>xs v. Inr ()),
      median_order = (\<lambda>data. Inl ''unused''),
      draw_boxplot = (\<lambda>data ord. Inr ())\<rparr>"

definition world0 :: "(nat, unit) world" where
  "world0 = \<lparr>figs = 0, calls = []\<rparr>"

text \<open>Three rows: two levels, fewer than ten observations.\<close>

definition sample3 :: "nat frame" where
  "sample3 = [(Some 3, Finite 100), (Some 7, Finite 200), (Some 7, Finite 210)]"

text \<open>Libraries in which one call raises, the others being as above.\<close>

definition lib_kruskal_raises :: "(nat, unit) stats_lib" where
  "lib_kruskal_raises = lib_ok\<lparr>kruskal := (\<lambda>gs. Inl ''All numbers are identical in kruskal'')\<rparr>"

definition lib_shapiro_raises :: "(nat, unit) stats_lib" where
  "lib_shapiro_raises = lib_ok\<lparr>shapiro := (\<lambda>xs. Inl ''shapiro failed'')\<rparr>"

definition lib_draw_raises :: "(nat, unit) stats_lib" where
  "lib_draw_raises = lib_ok\<lparr>draw_normalidade := (\<lambda>xs v. Inl ''singular matrix'')\<rparr>"

text \<open>Ten complete rows, nine at level 3 and one at level 7: one valid group.\<close>

definition sample_9_1 :: "nat frame" where
  "sample_9_1 =
     [(Some 3, Finite 100), (Some 3, Finite 110), (Some 3, Finite 120), (Some 3, Finite 130),
      (Some 3, Finite 140), (Some 3, Finite 150), (Some 3, Finite 160), (Some 3, Finite 170),
      (Some 3, Finite 180), (Some 7, Finite 200)]"

definition group9 :: "pyfloat list list" where
  "group9 = [[Finite 100, Finite 110, Finite 120, Finite 130, Finite 140, Finite 150,
              Finite 160, Finite 170, Finite 180]]"

text \<open>A later world: four figures already open, one call already logged.\<close>

definition world_later :: "(nat, unit) world" where
  "world_later = \<lparr>figs = 4, calls = [Call_anova_lm ()]\<rparr>"

text \<open>
  A library whose model has 5001 residuals and whose Anderson-Darling result is scipy's
  table for the normal distribution, with a statistic of 0.5.
\<close>

definition resid_large :: "pyfloat list" where
  "resid_large = replicate 5001 (Finite 0)"

definition ad_norm :: anderson_result where
  "ad_norm =
     \<lparr>statistic = Finite 0.5,
      critical_values = [Finite 0.576, Finite 0.656, Finite 0.787, Finite 0.918, Finite 1.092],
      significance_level = [Finite 15, Finite 10, Finite 5, Finite 2.5, Finite 1]\<rparr>"

definition lib_large :: "(nat, unit) stats_lib" where
  "lib_large = lib_ok\<lparr>resid := (\<lambda>modelo. resid_large),
                       shapiro := (\<lambda>xs. Inl ''unused''),
                       anderson := (\<lambda>xs. Inr ad_norm)\<rparr>"

text \<open>
  A library whose fit fails for the variable \<open>lotshape\<close> and for no other, and the world
  the loop is in after that variable.
\<close>

definition lib_lotshape_fails :: "(nat, unit) stats_lib" where
  "lib_lotshape_fails =
     lib_ok\<lparr>ols_fit := (\<lambda>formula data.
               if formula = ''saleprice ~ C(lotshape)'' then Inl ''fit failed'' else Inr ())\<rparr>"

definition world_after_lotshape :: "(nat, unit) world" where
  "world_after_lotshape = \<lparr>figs = 0, calls = [Call_ols ''saleprice ~ C(lotshape)'' clean10]\<rparr>"

definition record_housestyle :: results where
  "record_housestyle =
     \<lparr>var_cat = ''housestyle'',
      plots = [''normalidade'' \<mapsto> Suc 0, ''boxplot'' \<mapsto> Suc (Suc 0)],
      error = None,
      anova_table = Some [(''C(housestyle)'', row_of (Finite 0.01)), (''Residual'', row_of NaN)],
      p_valor_anova = Some (PScalar (Finite 0.01)),
      residuos_count = Some 10,
      shapiro_test = Some (Finite 0.9, Finite 0.01),
      anderson_test = None,
      normalidade_ok = Some False,
      levene_test = Some (Finite 0, Finite 1),
      homocedasticidade_ok = Some True,
      kruskal_test = Some (Finite 6.8, Finite 0.009)\<rparr>"

definition page_housestyle :: "element list" where
  "page_housestyle =
     [Heading_anova,
      Anova_table_shown [(''C(housestyle)'', row_of (Finite 0.01)), (''Residual'', row_of NaN)],
      Anova_significant (Finite 0.01),
      Heading_normalidade, Shapiro_line (Finite 0.9) (Finite 0.01), Residuals_not_normal,
      Figure (Suc 0),
      Heading_homocedasticidade, Levene_line (Finite 0) (Finite 1), Variances_homogeneous,
      Heading_kruskal, Kruskal_line (Finite 6.8) (Finite 0.009), Kruskal_significant,
      Heading_boxplot, Figure (Suc (Suc 0)), Separator]"

text \<open>A library whose table lists the factor's row twice.\<close>

definition lib_two_factor_rows :: "(nat, unit) stats_lib" where
  "lib_two_factor_rows =
     lib_ok\<lparr>anova_lm := (\<lambda>modelo.
               Inr [(''C(housestyle)'', row_of (Finite 0.01)),
                    (''C(housestyle)'', row_of (Finite 0.2))])\<rparr>"

section \<open>Rules for triples\<close>

lemmas monad_defs = bindE_def returnE_def call_def store_def lift_def subplots_def

lemmas phase_defs = fit_anova_def check_normalidade_def plot_normalidade_def
  check_homocedasticidade_def run_kruskal_def order_boxplot_def plot_boxplot_def

lemma hoareE_bind:
  assumes "hoareE P m R E" and "\<And>a. hoareE (R a) (f a) Q E"
  shows "hoareE P (bindE m f) Q E"
  using assms unfolding hoareE_def bindE_def
  by (fastforce split: sum.splits prod.splits)

lemma hoareE_weaken:
  assumes "hoareE P' m Q' E'"
    and "\<And>s. P s \<Longrightarrow> P' s" and "\<And>a s. Q' a s \<Longrightarrow> Q a s" and "\<And>e s. E' e s \<Longrightarrow> E e s"
  shows "hoareE P m Q E"
  using assms unfolding hoareE_def
  by (fastforce split: sum.splits prod.splits)

lemma hoareE_run:
  assumes "hoareE P m Q E" and "P s" and "m s = (x, s')"
  shows "case x of Inl e \<Rightarrow> E e s' | Inr a \<Rightarrow> Q a s'"
  using assms unfolding hoareE_def
  by (fastforce split: sum.splits)

lemma untouched_verdicts: "untouched r t \<Longrightarrow> verdicts_inv lib gv r t"
  by (simp add: untouched_def verdicts_inv_def levene_part_def kruskal_part_def fallback_due_def
      split: option.splits)

lemma fit_anova_verdicts:
  "hoareE (since k untouched) (fit_anova lib df_var vcat formula)
     (\<lambda>_. since k untouched) (\<lambda>_. since k untouched)"
  unfolding hoareE_def fit_anova_def monad_defs since_def untouched_def
  by (auto simp: is_levene_def is_kruskal_def split: sum.splits prod.splits)

lemma check_normalidade_verdicts:
  "hoareE (since k untouched) (check_normalidade lib residuos)
     (\<lambda>n. since k (\<lambda>r t. untouched r t \<and> normalidade_ok r = Some n)) (\<lambda>_. since k untouched)"
  unfolding hoareE_def check_normalidade_def monad_defs since_def untouched_def
  by (auto simp: is_levene_def is_kruskal_def split: sum.splits prod.splits)

lemma plot_normalidade_verdicts:
  "hoareE (since k (\<lambda>r t. untouched r t \<and> normalidade_ok r = Some n))
     (plot_normalidade lib residuos vcat)
     (\<lambda>_. since k (plotted n)) (\<lambda>_. since k untouched)"
  unfolding hoareE_def plot_normalidade_def monad_defs since_def untouched_def plotted_def
  by (auto simp: is_levene_def is_kruskal_def split: sum.splits prod.splits)

lemma check_homocedasticidade_verdicts:
  "hoareE (since k (plotted n))
     (check_homocedasticidade lib df_var)
     (\<lambda>h. since k (homoc_done lib (grupos_validos df_var) n h))
     (\<lambda>_. since k (verdicts_inv lib (grupos_validos df_var)))"
  unfolding hoareE_def check_homocedasticidade_def monad_defs since_def plotted_def homoc_done_def
    verdicts_inv_def levene_part_def kruskal_part_def fallback_due_def result_of_def
  by (auto simp: is_levene_def is_kruskal_def split: sum.splits prod.splits)

lemma run_kruskal_verdicts:
  "hoareE (since k (homoc_done lib (grupos_validos df_var) n h))
     (run_kruskal lib df_var n h)
     (\<lambda>_. since k (verdicts_inv lib (grupos_validos df_var)))
     (\<lambda>_. since k (verdicts_inv lib (grupos_validos df_var)))"
  unfolding hoareE_def run_kruskal_def monad_defs since_def homoc_done_def
    verdicts_inv_def levene_part_def kruskal_part_def fallback_due_def result_of_def
  by (auto simp: is_levene_def is_kruskal_def split: sum.splits prod.splits)

lemma plot_boxplot_effect:
  assumes "plot_boxplot lib df_var (r, w) = (x, (r', w'))"
  shows "(r' = r \<or> r' = r\<lparr>plots := (plots r)(''boxplot'' \<mapsto> Suc (figs w))\<rparr>)
         \<and> (\<exists>t'. calls w' = calls w @ t' \<and> list_all is_boxplot_call t')"
  using assms unfolding plot_boxplot_def order_boxplot_def monad_defs
  by (auto simp: is_boxplot_call_def split: sum.splits prod.splits if_splits)

lemma plot_boxplot_frame:
  assumes upd: "\<And>r t f. I r t \<Longrightarrow> I (r\<lparr>plots := (plots r)(''boxplot'' \<mapsto> f)\<rparr>) t"
    and app: "\<And>r t t'. I r t \<Longrightarrow> list_all is_boxplot_call t' \<Longrightarrow> I r (t @ t')"
  shows "hoareE (since k I) (plot_boxplot lib df_var) (\<lambda>_. since k I) (\<lambda>_. since k I)"
proof -
  have "since k I (r', w')"
    if run: "plot_boxplot lib df_var (r, w) = (x, (r', w'))" and pre: "since k I (r, w)"
    for r w x r' and w' :: "('a, 'b) world"
  proof -
    from plot_boxplot_effect [OF run] obtain t' where
      r': "r' = r \<or> r' = r\<lparr>plots := (plots r)(''boxplot'' \<mapsto> Suc (figs w))\<rparr>"
      and w': "calls w' = calls w @ t'" and t': "list_all is_boxplot_call t'"
      by blast
    from pre have k: "k \<le> length (calls w)" and I: "I r (drop k (calls w))"
      by (simp_all add: since_def)
    from app [OF I t'] have "I r (drop k (calls w'))"
      using k w' by simp
    with upd r' have "I r' (drop k (calls w'))"
      by auto
    with k w' show ?thesis
      by (simp add: since_def)
  qed
  then show ?thesis
    unfolding hoareE_def by (auto split: sum.splits prod.splits)
qed

lemma boxplot_calls_filter:
  "list_all is_boxplot_call t' \<Longrightarrow> filter is_levene t' = [] \<and> filter is_kruskal t' = []"
  by (induction t')
     (auto simp: is_boxplot_call_def is_levene_def is_kruskal_def split: lib_call.splits)

lemma verdicts_inv_append:
  "filter is_levene t' = [] \<Longrightarrow> filter is_kruskal t' = []
     \<Longrightarrow> verdicts_inv lib gv r (t @ t') = verdicts_inv lib gv r t"
  by (simp add: verdicts_inv_def levene_part_def kruskal_part_def)

lemma verdicts_inv_boxplot:
  "verdicts_inv lib gv (r\<lparr>plots := (plots r)(''boxplot'' \<mapsto> f)\<rparr>) t = verdicts_inv lib gv r t"
  by (simp add: verdicts_inv_def levene_part_def kruskal_part_def fallback_due_def)

lemma plot_boxplot_verdicts:
  "hoareE (since k (verdicts_inv lib gv))
     (plot_boxplot lib df_var)
     (\<lambda>_. since k (verdicts_inv lib gv))
     (\<lambda>_. since k (verdicts_inv lib gv))"
  by (rule plot_boxplot_frame)
     (simp_all add: verdicts_inv_boxplot verdicts_inv_append boxplot_calls_filter)

lemma try_body_verdicts:
  "hoareE (since k untouched) (try_body lib df_var vcat formula)
     (\<lambda>_. since k (verdicts_inv lib (grupos_validos df_var)))
     (\<lambda>_. since k (verdicts_inv lib (grupos_validos df_var)))"
  unfolding try_body_def
  apply (rule hoareE_bind)
   apply (rule hoareE_weaken [OF fit_anova_verdicts])
     apply assumption
    apply assumption
   apply (simp add: since_def untouched_verdicts)
  apply (rule hoareE_bind)
   apply (rule hoareE_weaken [OF check_normalidade_verdicts])
     apply assumption
    apply assumption
   apply (simp add: since_def untouched_verdicts)
  apply (rule hoareE_bind)
   apply (rule hoareE_weaken [OF plot_normalidade_verdicts])
     apply assumption
    apply assumption
   apply (simp add: since_def untouched_verdicts)
  apply (rule hoareE_bind)
   apply (rule check_homocedasticidade_verdicts)
  apply (rule hoareE_bind)
   apply (rule run_kruskal_verdicts)
  apply (rule plot_boxplot_verdicts)
  done

lemma accepted_guard:
  "accepted df = (\<not> (nunique (map fst (dropna df)) < 2 \<or> length (dropna df) < 10))"
  by (auto simp: accepted_def nunique_def length_remdups_card_conv)

lemma perform_rejected:
  "\<not> accepted df \<Longrightarrow>
   perform_anova_for_variable lib df vcat col_preco w =
     (new_results vcat\<lparr>error := Some insufficient_msg\<rparr>, w)"
  by (simp add: accepted_guard perform_anova_for_variable_def Let_def)

lemma perform_accepted:
  "accepted df \<Longrightarrow>
   perform_anova_for_variable lib df vcat col_preco w =
     (case try_body lib (dropna df) vcat (formula_of col_preco vcat) (new_results vcat, w) of
        (Inl e, (r, w')) \<Rightarrow> (r\<lparr>error := Some e\<rparr>, w')
      | (Inr _, (r, w')) \<Rightarrow> (r, w'))"
  by (simp add: accepted_guard perform_anova_for_variable_def Let_def)

lemma verdicts_inv_error:
  "verdicts_inv lib gv (r\<lparr>error := e\<rparr>) t = verdicts_inv lib gv r t"
  by (simp add: verdicts_inv_def levene_part_def kruskal_part_def fallback_due_def)

lemma untouched_new: "since (length (calls w)) untouched (new_results vcat, w)"
  by (simp add: since_def untouched_def new_results_def)

lemma perform_verdicts:
  assumes acc: "accepted df"
    and run: "perform_anova_for_variable lib df vcat col_preco w = (r, w')"
  shows "verdicts_inv lib (grupos_validos (dropna df)) r (new_calls w w')"
proof -
  let ?body = "try_body lib (dropna df) vcat (formula_of col_preco vcat) (new_results vcat, w)"
  obtain x r0 w0 where body: "?body = (x, (r0, w0))"
    by (metis surj_pair)
  from hoareE_run [OF try_body_verdicts untouched_new body]
  have "since (length (calls w)) (verdicts_inv lib (grupos_validos (dropna df))) (r0, w0)"
    by (simp split: sum.splits)
  then have inv: "verdicts_inv lib (grupos_validos (dropna df)) r0 (new_calls w w0)"
    by (simp add: since_def new_calls_def)
  from run acc body have "w' = w0" and "r = r0 \<or> (\<exists>e. r = r0\<lparr>error := Some e\<rparr>)"
    by (auto simp: perform_accepted split: sum.splits)
  with inv show ?thesis
    by (auto simp: verdicts_inv_error)
qed

lemma new_results_fields:
  "kruskal_test (new_results v\<lparr>error := e\<rparr>) = None"
  "levene_test (new_results v\<lparr>error := e\<rparr>) = None"
  by (simp_all add: new_results_def)

section \<open>The concrete runs\<close>

lemma dropna_sample12: "dropna sample12 = clean10"
  by (simp add: sample12_def clean10_def dropna_def)

lemma clean10_size: "nunique (map fst clean10) = 2" "length clean10 = 10"
  by (simp_all add: clean10_def nunique_def)

lemma accepted_sample12: "accepted sample12"
  by (simp add: accepted_guard dropna_sample12 clean10_size)

lemma grupos_validos_clean10: "grupos_validos clean10 = groups10"
  by (simp add: clean10_def groups10_def grupos_validos_def grupos_def unique_def dropna_series_def)

lemma groups10_size: "length groups10 = 2"
  by (simp add: groups10_def)

lemma resid10_size: "length resid10 = 10"
  by (simp add: resid10_def)

lemmas sample12_simps =
  dropna_sample12 clean10_size grupos_validos_clean10 groups10_size resid10_size

lemma calls_world0: "calls world0 = []"
  by (simp add: world0_def)

lemma run_lib_ok:
  "perform_anova_for_variable lib_ok sample12 ''housestyle'' ''saleprice'' world0 =
     (\<lparr>var_cat = ''housestyle'',
       plots = [''normalidade'' \<mapsto> Suc 0, ''boxplot'' \<mapsto> Suc (Suc 0)],
       error = None,
       anova_table = Some [(''C(housestyle)'', row_of (Finite 0.01)), (''Residual'', row_of NaN)],
       p_valor_anova = Some (PScalar (Finite 0.01)),
       residuos_count = Some 10,
       shapiro_test = Some (Finite 0.9, Finite 0.01),
       anderson_test = None,
       normalidade_ok = Some False,
       levene_test = Some (Finite 0, Finite 1),
       homocedasticidade_ok = Some True,
       kruskal_test = Some (Finite 6.8, Finite 0.009)\<rparr>,
      \<lparr>figs = 2,
       calls = [Call_ols ''saleprice ~ C(housestyle)'' clean10, Call_anova_lm (),
                Call_shapiro resid10, Call_draw_normalidade resid10 ''housestyle'',
                Call_levene groups10, Call_kruskal groups10,
                Call_draw_boxplot clean10 None]\<rparr>)"
  by (simp add: perform_accepted accepted_sample12 try_body_def phase_defs monad_defs
      new_results_def sample12_simps lib_ok_def world0_def float_ge_def
      select_p_valor_def loc_PR_def row_of_def formula_of_def effect_label_def)

lemma run_kruskal_raises:
  "perform_anova_for_variable lib_kruskal_raises sample12 ''housestyle'' ''saleprice'' world0 =
     (\<lparr>var_cat = ''housestyle'',
       plots = [''normalidade'' \<mapsto> Suc 0],
       error = Some ''All numbers are identical in kruskal'',
       anova_table = Some [(''C(housestyle)'', row_of (Finite 0.01)), (''Residual'', row_of NaN)],
       p_valor_anova = Some (PScalar (Finite 0.01)),
       residuos_count = Some 10,
       shapiro_test = Some (Finite 0.9, Finite 0.01),
       anderson_test = None,
       normalidade_ok = Some False,
       levene_test = Some (Finite 0, Finite 1),
       homocedasticidade_ok = Some True,
       kruskal_test = None\<rparr>,
      \<lparr>figs = 1,
       calls = [Call_ols ''saleprice ~ C(housestyle)'' clean10, Call_anova_lm (),
                Call_shapiro resid10, Call_draw_normalidade resid10 ''housestyle'',
                Call_levene groups10, Call_kruskal groups10]\<rparr>)"
  by (simp add: perform_accepted accepted_sample12 try_body_def phase_defs monad_defs
      new_results_def sample12_simps lib_kruskal_raises_def lib_ok_def world0_def float_ge_def
      select_p_valor_def loc_PR_def row_of_def formula_of_def effect_label_def)

lemma run_shapiro_raises:
  "perform_anova_for_variable lib_shapiro_raises sample12 ''housestyle'' ''saleprice'' world0 =
     (\<lparr>var_cat = ''housestyle'',
       plots = Map.empty,
       error = Some ''shapiro failed'',
       anova_table = Some [(''C(housestyle)'', row_of (Finite 0.01)), (''Residual'', row_of NaN)],
       p_valor_anova = Some (PScalar (Finite 0.01)),
       residuos_count = Some 10,
       shapiro_test = None,
       anderson_test = None,
       normalidade_ok = None,
       levene_test = None,
       homocedasticidade_ok = None,
       kruskal_test = None\<rparr>,
      \<lparr>figs = 0,
       calls = [Call_ols ''saleprice ~ C(housestyle)'' clean10, Call_anova_lm (),
                Call_shapiro resid10]\<rparr>)"
  by (simp add: perform_accepted accepted_sample12 try_body_def phase_defs monad_defs
      new_results_def sample12_simps lib_shapiro_raises_def lib_ok_def world0_def float_ge_def
      select_p_valor_def loc_PR_def row_of_def formula_of_def effect_label_def)

lemma run_draw_raises:
  "perform_anova_for_variable lib_draw_raises sample12 ''housestyle'' ''saleprice'' world0 =
     (\<lparr>var_cat = ''housestyle'',
       plots = Map.empty,
       error = Some ''singular matrix'',
       anova_table = Some [(''C(housestyle)'', row_of (Finite 0.01)), (''Residual'', row_of NaN)],
       p_valor_anova = Some (PScalar (Finite 0.01)),
       residuos_count = Some 10,
       shapiro_test = Some (Finite 0.9, Finite 0.01),
       anderson_test = None,
       normalidade_ok = Some False,
       levene_test = None,
       homocedasticidade_ok = None,
       kruskal_test = None\<rparr>,
      \<lparr>figs = 1,
       calls = [Call_ols ''saleprice ~ C(housestyle)'' clean10, Call_anova_lm (),
                Call_shapiro resid10, Call_draw_normalidade resid10 ''housestyle'']\<rparr>)"
  by (simp add: perform_accepted accepted_sample12 try_body_def phase_defs monad_defs
      new_results_def sample12_simps lib_draw_raises_def lib_ok_def world0_def float_ge_def
      select_p_valor_def loc_PR_def row_of_def formula_of_def effect_label_def)

lemma dropna_sample_9_1: "dropna sample_9_1 = sample_9_1"
  by (simp add: sample_9_1_def dropna_def)

lemma sample_9_1_size: "nunique (map fst sample_9_1) = 2" "length sample_9_1 = 10"
  by (simp_all add: sample_9_1_def nunique_def)

lemma accepted_sample_9_1: "accepted sample_9_1"
  by (simp add: accepted_guard dropna_sample_9_1 sample_9_1_size)

lemma grupos_validos_sample_9_1: "grupos_validos sample_9_1 = group9"
  by (simp add: sample_9_1_def group9_def grupos_validos_def grupos_def unique_def dropna_series_def)

lemma group9_size: "length group9 = 1"
  by (simp add: group9_def)

lemmas sample_9_1_simps =
  dropna_sample_9_1 sample_9_1_size grupos_validos_sample_9_1 group9_size resid10_size

lemma run_one_valid_group:
  "perform_anova_for_variable lib_ok sample_9_1 ''housestyle'' ''saleprice'' world0 =
     (\<lparr>var_cat = ''housestyle'',
       plots = [''normalidade'' \<mapsto> Suc 0, ''boxplot'' \<mapsto> Suc (Suc 0)],
       error = None,
       anova_table = Some [(''C(housestyle)'', row_of (Finite 0.01)), (''Residual'', row_of NaN)],
       p_valor_anova = Some (PScalar (Finite 0.01)),
       residuos_count = Some 10,
       shapiro_test = Some (Finite 0.9, Finite 0.01),
       anderson_test = None,
       normalidade_ok = Some False,
       levene_test = None,
       homocedasticidade_ok = Some False,
       kruskal_test = None\<rparr>,
      \<lparr>figs = 2,
       calls = [Call_ols ''saleprice ~ C(housestyle)'' sample_9_1, Call_anova_lm (),
                Call_shapiro resid10, Call_draw_normalidade resid10 ''housestyle'',
                Call_draw_boxplot sample_9_1 None]\<rparr>)"
  by (simp add: perform_accepted accepted_sample_9_1 try_body_def phase_defs monad_defs
      new_results_def sample_9_1_simps lib_ok_def world0_def float_ge_def
      select_p_valor_def loc_PR_def row_of_def formula_of_def effect_label_def)

section \<open>Rejection of insufficient samples\<close>

text \<open>
  Claim C2. If, after the rows with a missing factor or a missing response are removed,
  the factor has fewer than two distinct levels or fewer than ten observations remain,
  the Selector returns the fresh record with the insufficient-data error and leaves the
  world as it found it: no library call is logged (no fit, no test) and no figure is
  created.
\<close>

theorem insufficient_data_rejected:
  assumes "card (set (notna (map fst (dropna df)))) < 2 \<or> length (dropna df) < 10"
    and "perform_anova_for_variable lib df vcat col_preco w = (r, w')"
  shows "r = new_results vcat\<lparr>error := Some insufficient_msg\<rparr> \<and> w' = w
         \<and> new_calls w w' = [] \<and> figs w' = figs w
         \<and> anova_table r = None \<and> shapiro_test r = None \<and> anderson_test r = None
         \<and> levene_test r = None \<and> kruskal_test r = None"
proof -
  from assms(1) have "\<not> accepted df"
    by (auto simp: accepted_def)
  with assms(2) show ?thesis
    by (auto simp: perform_rejected new_calls_def new_results_def)
qed

theorem insufficient_data_rejected_witness:
  "length (dropna sample3) < 10
   \<and> perform_anova_for_variable lib_ok sample3 ''housestyle'' ''saleprice'' world0 =
       (new_results ''housestyle''\<lparr>error := Some insufficient_msg\<rparr>, world0)"
proof -
  have few: "length (dropna sample3) < 10"
    by (simp add: sample3_def dropna_def)
  obtain r w' where run:
    "perform_anova_for_variable lib_ok sample3 ''housestyle'' ''saleprice'' world0 = (r, w')"
    by (metis surj_pair)
  from insufficient_data_rejected [OF disjI2 [OF few] run] run few show ?thesis
    by simp
qed

section \<open>The fallback test never stands without Levene's test\<close>

text \<open>
  Claim C9. In every record the Selector returns, a Kruskal-Wallis result comes with a
  Levene result: both tests were called, on the same list of valid groups, which has at
  least two groups.
\<close>

theorem kruskal_needs_levene:
  assumes run: "perform_anova_for_variable lib df vcat col_preco w = (r, w')"
    and kw: "kruskal_test r \<noteq> None"
  shows "levene_test r \<noteq> None
         \<and> Call_kruskal (grupos_validos (dropna df)) \<in> set (new_calls w w')
         \<and> Call_levene (grupos_validos (dropna df)) \<in> set (new_calls w w')
         \<and> 2 \<le> length (grupos_validos (dropna df))"
proof (cases "accepted df")
  case False
  with run kw show ?thesis
    by (auto simp: perform_rejected new_results_def)
next
  case True
  let ?gv = "grupos_validos (dropna df)" and ?t = "new_calls w w'"
  from perform_verdicts [OF True run] have lp: "levene_part lib ?gv r ?t"
    and kp: "kruskal_part lib ?gv r ?t"
    by (simp_all add: verdicts_inv_def)
  from kp kw have due: "fallback_due r" and two: "2 \<le> length ?gv"
    and kcalls: "filter is_kruskal ?t = [Call_kruskal ?gv]"
    by (auto simp: kruskal_part_def split: if_splits)
  from due obtain h where h: "homocedasticidade_ok r = Some h"
    by (auto simp: fallback_due_def split: option.splits)
  from lp h two have pn: "plots r ''normalidade'' \<noteq> None"
    by (auto simp: levene_part_def split: if_splits)
  from lp two pn have lt: "levene_test r = result_of (levene lib ?gv)"
    and hm: "homocedasticidade_ok r =
               map_option (\<lambda>(s, p). float_ge p (Finite 0.05)) (result_of (levene lib ?gv))"
    and lcalls: "filter is_levene ?t = [Call_levene ?gv]"
    by (simp_all add: levene_part_def)
  from hm h have "result_of (levene lib ?gv) \<noteq> None"
    by (cases "result_of (levene lib ?gv)") simp_all
  with lt have "levene_test r \<noteq> None"
    by simp
  moreover from kcalls have "Call_kruskal ?gv \<in> set (filter is_kruskal ?t)" by simp
  moreover from lcalls have "Call_levene ?gv \<in> set (filter is_levene ?t)" by simp
  ultimately show ?thesis using two by auto
qed

theorem kruskal_needs_levene_witness:
  "kruskal_test (fst (perform_anova_for_variable lib_ok sample12 ''housestyle'' ''saleprice'' world0))
     = Some (Finite 6.8, Finite 0.009)
   \<and> levene_test (fst (perform_anova_for_variable lib_ok sample12 ''housestyle'' ''saleprice'' world0))
     \<noteq> None"
  using kruskal_needs_levene [OF run_lib_ok] by (simp add: run_lib_ok)

section \<open>Facts about the groups and the logged calls\<close>

lemma fallback_due_iff:
  "fallback_due r \<longleftrightarrow>
     (\<exists>n h. normalidade_ok r = Some n \<and> homocedasticidade_ok r = Some h \<and> (\<not> n \<or> \<not> h))"
  by (auto simp: fallback_due_def split: option.splits)

lemma filter_singleton_mem:
  "filter P t = [c] \<Longrightarrow> c \<in> set t \<and> (\<forall>d \<in> set t. P d \<longrightarrow> d = c)"
proof -
  assume a: "filter P t = [c]"
  have "set (filter P t) = {c}" using a by simp
  then show ?thesis by auto
qed

lemma filter_empty_mem: "filter P t = [] \<Longrightarrow> \<forall>d \<in> set t. \<not> P d"
  by (simp add: filter_empty_conv)

lemma levene_calls:
  assumes "levene_part lib gv r t"
  shows "Call_levene g \<in> set t \<longleftrightarrow> g = gv \<and> 2 \<le> length gv \<and> plots r ''normalidade'' \<noteq> None"
proof (cases "plots r ''normalidade'' \<noteq> None \<and> 2 \<le> length gv")
  case True
  with assms have "filter is_levene t = [Call_levene gv]"
    by (simp add: levene_part_def)
  from filter_singleton_mem [OF this] True show ?thesis
    by (auto simp: is_levene_def)
next
  case False
  with assms have "filter is_levene t = []"
    by (auto simp: levene_part_def)
  from filter_empty_mem [OF this] False show ?thesis
    by (auto simp: is_levene_def)
qed

lemma kruskal_calls:
  assumes "kruskal_part lib gv r t"
  shows "Call_kruskal g \<in> set t \<longleftrightarrow> g = gv \<and> fallback_due r \<and> 2 \<le> length gv"
proof (cases "fallback_due r \<and> 2 \<le> length gv")
  case True
  with assms have "filter is_kruskal t = [Call_kruskal gv]"
    by (simp add: kruskal_part_def)
  from filter_singleton_mem [OF this] True show ?thesis
    by (auto simp: is_kruskal_def)
next
  case False
  with assms have "filter is_kruskal t = []"
    by (auto simp: kruskal_part_def)
  from filter_empty_mem [OF this] False show ?thesis
    by (auto simp: is_kruskal_def)
qed

lemma notna_map_Some: "notna (map Some xs) = xs"
  by (induction xs) simp_all

lemma remdups_map_Some: "remdups (map Some xs) = map Some (remdups xs)"
  by (induction xs) auto

lemma unique_map_Some: "unique (map Some xs) = map Some (unique xs)"
  by (simp add: unique_def rev_map remdups_map_Some)

lemma dropna_fst: "map fst (dropna df) = map Some (notna (map fst (dropna df)))"
  by (induction df) (auto simp: dropna_def)

lemma dropna_group:
  "dropna_series (map snd (filter (\<lambda>(x, y). cell_eq x (Some l)) (dropna df)))
     = observations (dropna df) l"
proof -
  have a: "filter (\<lambda>(x, y). cell_eq x (Some l)) (dropna df) = filter (\<lambda>(x, y). x = Some l) (dropna df)"
    by (rule filter_cong) (auto simp: dropna_def elim: cell_eq.elims)
  have b: "dropna_series (map snd (filter P (dropna df))) = map snd (filter P (dropna df))" for P
    unfolding dropna_series_def dropna_def by (induction df) auto
  show ?thesis
    by (simp add: a b observations_def)
qed

lemma grupos_partition:
  "grupos (dropna df) = map (observations (dropna df)) (levels (dropna df))"
proof -
  have "unique (map fst (dropna df)) = map Some (levels (dropna df))"
    unfolding levels_def by (subst dropna_fst) (simp add: unique_map_Some notna_map_Some)
  then show ?thesis
    by (simp add: grupos_def dropna_group comp_def)
qed

lemma levels_distinct: "distinct (levels df)"
  by (simp add: levels_def unique_def)

lemma levels_set: "set (levels df) = set (notna (map fst df))"
  by (simp add: levels_def unique_def)

lemma set_notna: "set (notna xs) = {x. Some x \<in> set xs}"
  by (induction xs rule: notna.induct) auto

lemma observations_absent: "l \<notin> set (levels df) \<Longrightarrow> observations df l = []"
  by (auto simp: levels_set set_notna observations_def filter_empty_conv image_iff)

lemma grupos_validos_partition:
  "grupos_validos (dropna df) =
     filter (\<lambda>g. 2 \<le> length g) (map (observations (dropna df)) (levels (dropna df)))"
  by (simp add: grupos_validos_def grupos_partition)

lemma grupos_validos_count:
  "length (grupos_validos (dropna df)) = card {l. 2 \<le> length (observations (dropna df) l)}"
proof -
  let ?P = "\<lambda>l. 2 \<le> length (observations (dropna df) l)"
  have "length (grupos_validos (dropna df)) = length (filter ?P (levels (dropna df)))"
    by (simp add: grupos_validos_partition filter_map comp_def)
  also have "\<dots> = card ({l. ?P l} \<inter> set (levels (dropna df)))"
    by (rule distinct_length_filter [OF levels_distinct])
  also have "{l. ?P l} \<inter> set (levels (dropna df)) = {l. ?P l}"
    using observations_absent [of _ "dropna df"] by fastforce
  finally show ?thesis .
qed

section \<open>The non-parametric fallback\<close>

text \<open>
  Claim C1, as amended. For every accepted sample: the Kruskal-Wallis test is called if
  and only if the record holds both verdicts, one of them false (\<open>fallback_due\<close>), and at
  least two valid groups remain; it is called on exactly the valid groups, the list
  Levene's test was given; its result is in the record if and only if, in addition, the
  call returns, and then it is what the call returned.
\<close>

theorem kruskal_iff_verdict_fails:
  assumes acc: "accepted df"
    and run: "perform_anova_for_variable lib df vcat col_preco w = (r, w')"
  shows "(\<forall>g. Call_kruskal g \<in> set (new_calls w w') \<longleftrightarrow>
              g = grupos_validos (dropna df) \<and> fallback_due r
              \<and> 2 \<le> length (grupos_validos (dropna df)))
         \<and> (kruskal_test r \<noteq> None \<longleftrightarrow>
              fallback_due r \<and> 2 \<le> length (grupos_validos (dropna df))
              \<and> result_of (kruskal lib (grupos_validos (dropna df))) \<noteq> None)
         \<and> (\<forall>x. kruskal_test r = Some x \<longrightarrow> kruskal lib (grupos_validos (dropna df)) = Inr x)
         \<and> (\<forall>g. Call_levene g \<in> set (new_calls w w') \<longrightarrow> g = grupos_validos (dropna df))"
proof -
  let ?gv = "grupos_validos (dropna df)" and ?t = "new_calls w w'"
  from perform_verdicts [OF acc run] have lp: "levene_part lib ?gv r ?t"
    and kp: "kruskal_part lib ?gv r ?t"
    by (simp_all add: verdicts_inv_def)
  from kp have kt: "kruskal_test r =
      (if fallback_due r \<and> 2 \<le> length ?gv then result_of (kruskal lib ?gv) else None)"
    by (simp add: kruskal_part_def)
  have "\<forall>x. kruskal_test r = Some x \<longrightarrow> kruskal lib ?gv = Inr x"
    using kt by (auto simp: result_of_def split: if_splits sum.splits)
  moreover have "kruskal_test r \<noteq> None \<longleftrightarrow>
      fallback_due r \<and> 2 \<le> length ?gv \<and> result_of (kruskal lib ?gv) \<noteq> None"
    using kt by auto
  ultimately show ?thesis
    using kruskal_calls [OF kp] levene_calls [OF lp] by blast
qed

theorem kruskal_iff_verdict_fails_witness:
  "accepted sample12
   \<and> Call_kruskal groups10 \<in> set (new_calls world0
        (snd (perform_anova_for_variable lib_ok sample12 ''housestyle'' ''saleprice'' world0)))
   \<and> kruskal lib_ok (grupos_validos (dropna sample12)) = Inr (Finite 6.8, Finite 0.009)"
  using kruskal_iff_verdict_fails [OF accepted_sample12 run_lib_ok] accepted_sample12
  by (simp add: run_lib_ok sample12_simps fallback_due_def result_of_def split: sum.splits)

text \<open>
  The claim as first stated asks only that the fit succeeds. With a Kruskal-Wallis call
  that raises, the fit has succeeded, the record holds a false normality verdict and two
  valid groups remain, yet the record has no Kruskal-Wallis result.
\<close>

theorem kruskal_absent_when_it_raises:
  "accepted sample12
   \<and> ols_fit lib_kruskal_raises ''saleprice ~ C(housestyle)'' (dropna sample12) = Inr ()
   \<and> normalidade_ok (fst (perform_anova_for_variable lib_kruskal_raises sample12
        ''housestyle'' ''saleprice'' world0)) = Some False
   \<and> 2 \<le> length (grupos_validos (dropna sample12))
   \<and> kruskal_test (fst (perform_anova_for_variable lib_kruskal_raises sample12
        ''housestyle'' ''saleprice'' world0)) = None"
proof -
  have "ols_fit lib_kruskal_raises ''saleprice ~ C(housestyle)'' (dropna sample12) = Inr ()"
    by (simp add: lib_kruskal_raises_def lib_ok_def)
  moreover have "2 \<le> length (grupos_validos (dropna sample12))"
    by (simp add: sample12_simps)
  ultimately show ?thesis
    using accepted_sample12 by (simp add: run_kruskal_raises)
qed

section \<open>The homogeneity check\<close>

text \<open>
  Claim C4, as amended. For every accepted sample: the valid groups are the responses
  of each level, level by level in order of first appearance, without the levels that
  have fewer than two observations, so there are as many valid groups as levels with at
  least two observations. Levene's test is called if and only if the Selector reaches
  the homogeneity check (the record holds the normality plot, stored by the statement
  before it) and at least two valid groups remain, and it is called on the valid groups.
  When it returns, its result is stored and the verdict is true exactly when its p-value
  is at least 0.05. When the check is reached with fewer than two valid groups, no
  Levene result is stored and the verdict is false.
\<close>

theorem levene_iff_reached:
  assumes acc: "accepted df"
    and run: "perform_anova_for_variable lib df vcat col_preco w = (r, w')"
  shows "grupos_validos (dropna df) =
           filter (\<lambda>g. 2 \<le> length g) (map (observations (dropna df)) (levels (dropna df)))
         \<and> length (grupos_validos (dropna df)) =
             card {l. 2 \<le> length (observations (dropna df) l)}
         \<and> (\<forall>g. Call_levene g \<in> set (new_calls w w') \<longleftrightarrow>
              g = grupos_validos (dropna df) \<and> 2 \<le> length (grupos_validos (dropna df))
              \<and> plots r ''normalidade'' \<noteq> None)
         \<and> (\<forall>s p. plots r ''normalidade'' \<noteq> None \<and> 2 \<le> length (grupos_validos (dropna df))
                  \<and> levene lib (grupos_validos (dropna df)) = Inr (s, p) \<longrightarrow>
                levene_test r = Some (s, p)
                \<and> homocedasticidade_ok r = Some (float_ge p (Finite 0.05)))
         \<and> (plots r ''normalidade'' \<noteq> None \<and> length (grupos_validos (dropna df)) < 2 \<longrightarrow>
                levene_test r = None \<and> homocedasticidade_ok r = Some False)"
proof -
  let ?gv = "grupos_validos (dropna df)" and ?t = "new_calls w w'"
  from perform_verdicts [OF acc run] have lp: "levene_part lib ?gv r ?t"
    by (simp add: verdicts_inv_def)
  from lp have "levene_test r =
      (if plots r ''normalidade'' \<noteq> None \<and> 2 \<le> length ?gv then result_of (levene lib ?gv) else None)"
    and "homocedasticidade_ok r =
        (if plots r ''normalidade'' \<noteq> None
         then if 2 \<le> length ?gv
              then map_option (\<lambda>(s, p). float_ge p (Finite 0.05)) (result_of (levene lib ?gv))
              else Some False
         else None)"
    by (simp_all add: levene_part_def)
  then have "(\<forall>s p. plots r ''normalidade'' \<noteq> None \<and> 2 \<le> length ?gv
                  \<and> levene lib ?gv = Inr (s, p) \<longrightarrow>
                levene_test r = Some (s, p)
                \<and> homocedasticidade_ok r = Some (float_ge p (Finite 0.05)))
         \<and> (plots r ''normalidade'' \<noteq> None \<and> length ?gv < 2 \<longrightarrow>
                levene_test r = None \<and> homocedasticidade_ok r = Some False)"
    by (auto simp: result_of_def)
  with levene_calls [OF lp] grupos_validos_partition [of df] grupos_validos_count [of df]
  show ?thesis
    by blast
qed

theorem levene_iff_reached_witness:
  "accepted sample12
   \<and> Call_levene groups10 \<in> set (new_calls world0
        (snd (perform_anova_for_variable lib_ok sample12 ''housestyle'' ''saleprice'' world0)))
   \<and> homocedasticidade_ok (fst (perform_anova_for_variable lib_ok sample12
        ''housestyle'' ''saleprice'' world0)) = Some (float_ge (Finite 1) (Finite 0.05))"
proof -
  have "levene lib_ok groups10 = Inr (Finite 0, Finite 1)"
    by (simp add: lib_ok_def)
  with levene_iff_reached [OF accepted_sample12 run_lib_ok] accepted_sample12
  show ?thesis
    by (simp add: run_lib_ok sample12_simps)
qed

text \<open>
  The claim as first stated asks only that the fit succeeds. When the normality test or
  the drawing of the residual plots raises, the fit has succeeded and two valid groups
  remain, yet Levene's test is never called.
\<close>

theorem levene_skipped_when_normality_step_raises:
  "accepted sample12
   \<and> ols_fit lib_shapiro_raises ''saleprice ~ C(housestyle)'' (dropna sample12) = Inr ()
   \<and> ols_fit lib_draw_raises ''saleprice ~ C(housestyle)'' (dropna sample12) = Inr ()
   \<and> 2 \<le> length (grupos_validos (dropna sample12))
   \<and> filter is_levene (calls (snd (perform_anova_for_variable lib_shapiro_raises sample12
        ''housestyle'' ''saleprice'' world0))) = []
   \<and> filter is_levene (calls (snd (perform_anova_for_variable lib_draw_raises sample12
        ''housestyle'' ''saleprice'' world0))) = []"
proof -
  have "ols_fit lib_shapiro_raises ''saleprice ~ C(housestyle)'' (dropna sample12) = Inr ()"
    and "ols_fit lib_draw_raises ''saleprice ~ C(housestyle)'' (dropna sample12) = Inr ()"
    by (simp_all add: lib_shapiro_raises_def lib_draw_raises_def lib_ok_def)
  moreover have "2 \<le> length (grupos_validos (dropna sample12))"
    by (simp add: sample12_simps)
  ultimately show ?thesis
    using accepted_sample12 by (simp add: run_shapiro_raises run_draw_raises is_levene_def)
qed

text \<open>
  Claim C10. For every accepted sample with fewer than two valid groups, Levene's test
  is not called and no Levene result is stored; the stored homogeneity verdict is never
  true, and once the homogeneity check is reached it is false, which alone makes the
  trigger of the fallback hold. The fallback itself is still not run, for want of
  groups.
\<close>

theorem skipped_levene_reads_false:
  assumes acc: "accepted df"
    and run: "perform_anova_for_variable lib df vcat col_preco w = (r, w')"
    and few: "length (grupos_validos (dropna df)) < 2"
  shows "(\<forall>g. Call_levene g \<notin> set (new_calls w w'))
         \<and> levene_test r = None
         \<and> homocedasticidade_ok r \<noteq> Some True
         \<and> (plots r ''normalidade'' \<noteq> None \<longrightarrow>
              homocedasticidade_ok r = Some False \<and> fallback_due r)
         \<and> (\<forall>g. Call_kruskal g \<notin> set (new_calls w w')) \<and> kruskal_test r = None"
proof -
  let ?gv = "grupos_validos (dropna df)" and ?t = "new_calls w w'"
  from perform_verdicts [OF acc run] have lp: "levene_part lib ?gv r ?t"
    and kp: "kruskal_part lib ?gv r ?t"
    and np: "plots r ''normalidade'' = None \<or> normalidade_ok r \<noteq> None"
    by (simp_all add: verdicts_inv_def)
  from few have nt: "\<not> 2 \<le> length ?gv" by simp
  from lp nt have lt: "levene_test r = None"
    and ho: "homocedasticidade_ok r = (if plots r ''normalidade'' \<noteq> None then Some False else None)"
    by (simp_all add: levene_part_def)
  from kp nt have kt: "kruskal_test r = None"
    by (simp add: kruskal_part_def)
  have due: "fallback_due r" if "plots r ''normalidade'' \<noteq> None"
    using that np ho by (auto simp: fallback_due_def)
  show ?thesis
    using levene_calls [OF lp] kruskal_calls [OF kp] nt lt ho kt due by auto
qed

theorem skipped_levene_reads_false_witness:
  "accepted sample_9_1 \<and> length (grupos_validos (dropna sample_9_1)) < 2
   \<and> homocedasticidade_ok (fst (perform_anova_for_variable lib_ok sample_9_1
        ''housestyle'' ''saleprice'' world0)) = Some False
   \<and> fallback_due (fst (perform_anova_for_variable lib_ok sample_9_1
        ''housestyle'' ''saleprice'' world0))"
proof -
  have few: "length (grupos_validos (dropna sample_9_1)) < 2"
    by (simp add: sample_9_1_simps)
  from skipped_levene_reads_false [OF accepted_sample_9_1 run_one_valid_group few]
    accepted_sample_9_1 few
  show ?thesis
    by (simp add: run_one_valid_group)
qed

section \<open>What the later statements leave unchanged\<close>

lemma try_body_split:
  "try_body lib df_var vcat formula =
     bindE (fit_anova lib df_var vcat formula) (after_fit lib df_var vcat)"
  by (simp add: try_body_def after_fit_def after_normalidade_def)

lemma keeps_bind:
  assumes trans: "\<And>a b c. F a b \<Longrightarrow> F b c \<Longrightarrow> F a c"
    and m: "keeps F m" and f: "\<And>a. keeps F (f a)"
  shows "keeps F (bindE m f)"
proof -
  have "F s (snd (bindE m f s))" for s
  proof -
    obtain x s' where ms: "m s = (x, s')"
      by (metis surj_pair)
    with m have 1: "F s s'" by (metis keeps_def snd_conv)
    show ?thesis
    proof (cases x)
      case (Inl e)
      with ms 1 show ?thesis by (simp add: bindE_def)
    next
      case (Inr a)
      from f [of a] have "F s' (snd (f a s'))" unfolding keeps_def by blast
      with 1 have "F s (snd (f a s'))" by (rule trans)
      with ms Inr show ?thesis by (simp add: bindE_def)
    qed
  qed
  then show ?thesis by (simp add: keeps_def)
qed

lemma fit_kept_trans: "fit_kept a b \<Longrightarrow> fit_kept b c \<Longrightarrow> fit_kept a c"
  by (simp add: fit_kept_def)

lemma normality_kept_trans: "normality_kept a b \<Longrightarrow> normality_kept b c \<Longrightarrow> normality_kept a c"
  by (auto simp: normality_kept_def)

lemma fit_kept_phases:
  "keeps fit_kept (check_normalidade lib residuos)"
  "keeps fit_kept (plot_normalidade lib residuos vcat)"
  "keeps fit_kept (check_homocedasticidade lib df_var)"
  "keeps fit_kept (run_kruskal lib df_var n h)"
  "keeps fit_kept (plot_boxplot lib df_var)"
  unfolding keeps_def fit_kept_def phase_defs monad_defs
  by (auto split: sum.splits prod.splits)

lemma normality_kept_phases:
  "keeps normality_kept (plot_normalidade lib residuos vcat)"
  "keeps normality_kept (check_homocedasticidade lib df_var)"
  "keeps normality_kept (run_kruskal lib df_var n h)"
  "keeps normality_kept (plot_boxplot lib df_var)"
  unfolding keeps_def normality_kept_def phase_defs monad_defs
  by (auto simp: is_normality_def split: sum.splits prod.splits)

lemma after_normalidade_keeps:
  "keeps fit_kept (after_normalidade lib df_var vcat residuos n)"
  "keeps normality_kept (after_normalidade lib df_var vcat residuos n)"
  unfolding after_normalidade_def
  by (intro keeps_bind fit_kept_phases normality_kept_phases; erule (1) fit_kept_trans normality_kept_trans)+

lemma after_fit_keeps: "keeps fit_kept (after_fit lib df_var vcat residuos)"
  unfolding after_fit_def
  by (intro keeps_bind fit_kept_phases after_normalidade_keeps; erule (1) fit_kept_trans)

lemma fit_anova_known:
  assumes "ols_fit lib formula df_var = Inr modelo" and "anova_lm lib modelo = Inr tbl"
  shows "fit_anova lib df_var vcat formula (r, w) =
           (Inr (resid lib modelo),
            (r\<lparr>anova_table := Some tbl,
               p_valor_anova := Some (select_p_valor tbl (effect_label vcat)),
               residuos_count := Some (length (resid lib modelo))\<rparr>,
             w\<lparr>calls := calls w @ [Call_ols formula df_var, Call_anova_lm modelo]\<rparr>))"
  using assms by (simp add: fit_anova_def monad_defs)

lemma perform_known_fit:
  assumes acc: "accepted df"
    and fit: "ols_fit lib (formula_of col_preco vcat) (dropna df) = Inr modelo"
    and tbl: "anova_lm lib modelo = Inr tbl"
  shows "perform_anova_for_variable lib df vcat col_preco w =
           finish (after_fit lib (dropna df) vcat (resid lib modelo)
             (new_results vcat\<lparr>anova_table := Some tbl,
                p_valor_anova := Some (select_p_valor tbl (effect_label vcat)),
                residuos_count := Some (length (resid lib modelo))\<rparr>,
              w\<lparr>calls := calls w @ [Call_ols (formula_of col_preco vcat) (dropna df),
                                     Call_anova_lm modelo]\<rparr>))"
  by (simp add: perform_accepted [OF acc] try_body_split bindE_def
      fit_anova_known [OF fit tbl] finish_def)

lemma finish_fields:
  assumes "finish (x, (r0, w0)) = (r, w')"
  shows "w' = w0" "anova_table r = anova_table r0" "p_valor_anova r = p_valor_anova r0"
    "residuos_count r = residuos_count r0" "shapiro_test r = shapiro_test r0"
    "anderson_test r = anderson_test r0" "normalidade_ok r = normalidade_ok r0"
  using assms by (auto simp: finish_def split: sum.splits)

lemma perform_fit_facts:
  assumes acc: "accepted df"
    and fit: "ols_fit lib (formula_of col_preco vcat) (dropna df) = Inr modelo"
    and tbl: "anova_lm lib modelo = Inr tbl"
    and run: "perform_anova_for_variable lib df vcat col_preco w = (r, w')"
  shows "anova_table r = Some tbl"
    and "p_valor_anova r = Some (select_p_valor tbl (effect_label vcat))"
    and "residuos_count r = Some (length (resid lib modelo))"
proof -
  let ?s1 = "(new_results vcat\<lparr>anova_table := Some tbl,
                p_valor_anova := Some (select_p_valor tbl (effect_label vcat)),
                residuos_count := Some (length (resid lib modelo))\<rparr>,
              w\<lparr>calls := calls w @ [Call_ols (formula_of col_preco vcat) (dropna df),
                                     Call_anova_lm modelo]\<rparr>)"
  obtain x r0 w0 where rest: "after_fit lib (dropna df) vcat (resid lib modelo) ?s1 = (x, (r0, w0))"
    by (metis surj_pair)
  from after_fit_keeps [of lib "dropna df" vcat "resid lib modelo"] rest
  have "fit_kept ?s1 (r0, w0)"
    unfolding keeps_def by (metis snd_conv)
  moreover from run rest have "finish (x, (r0, w0)) = (r, w')"
    by (simp add: perform_known_fit [OF acc fit tbl])
  ultimately show "anova_table r = Some tbl"
    and "p_valor_anova r = Some (select_p_valor tbl (effect_label vcat))"
    and "residuos_count r = Some (length (resid lib modelo))"
    by (auto simp: fit_kept_def dest: finish_fields)
qed

section \<open>The reported p-value\<close>

lemma label_present: "label \<in> fst ` set tbl \<longleftrightarrow> rows_labelled tbl label \<noteq> []"
  by (force simp: rows_labelled_def filter_empty_conv)

lemma reported_loc_PR: "reported (loc_PR tbl label) = map PR_F (rows_labelled tbl label)"
proof -
  have "(\<lambda>(l, r). PR_F r) = PR_F \<circ> (snd :: string \<times> anova_row \<Rightarrow> anova_row)"
    by (auto simp: fun_eq_iff)
  then show ?thesis
    by (simp add: loc_PR_def rows_labelled_def split: list.splits)
qed

lemma loc_PR_single: "rows_labelled tbl label = [row] \<Longrightarrow> loc_PR tbl label = PScalar (PR_F row)"
  using reported_loc_PR [of tbl label]
  by (cases "loc_PR tbl label") (auto simp: loc_PR_def split: list.splits)

text \<open>
  Claim C6. For every accepted sample whose fit and Type II table are returned, the
  record holds that table, and the reported p-value is read from the rows labelled with
  the factor term \<open>C(factor)\<close>: the entries of exactly those rows, and the scalar entry
  of the row when one row carries the label. When no row carries the label and the table
  has rows, it is the entry of the first row; for an empty table it is Python's None.
\<close>

theorem p_value_from_factor_row:
  assumes acc: "accepted df"
    and fit: "ols_fit lib (formula_of col_preco vcat) (dropna df) = Inr modelo"
    and tbl: "anova_lm lib modelo = Inr tbl"
    and run: "perform_anova_for_variable lib df vcat col_preco w = (r, w')"
  shows "anova_table r = Some tbl
         \<and> (rows_labelled tbl (effect_label vcat) \<noteq> [] \<longrightarrow>
              (\<exists>p. p_valor_anova r = Some p
                   \<and> reported p = map PR_F (rows_labelled tbl (effect_label vcat))))
         \<and> (\<forall>row. rows_labelled tbl (effect_label vcat) = [row] \<longrightarrow>
              p_valor_anova r = Some (PScalar (PR_F row)))
         \<and> (rows_labelled tbl (effect_label vcat) = [] \<and> tbl \<noteq> [] \<longrightarrow>
              p_valor_anova r = Some (PScalar (PR_F (snd (tbl ! 0)))))
         \<and> (tbl = [] \<longrightarrow> p_valor_anova r = Some PNone)"
proof -
  let ?L = "effect_label vcat"
  note facts = perform_fit_facts [OF acc fit tbl run]
  have 1: "rows_labelled tbl ?L \<noteq> [] \<Longrightarrow> select_p_valor tbl ?L = loc_PR tbl ?L"
    by (simp add: select_p_valor_def label_present)
  have 2: "rows_labelled tbl ?L = [] \<Longrightarrow> tbl \<noteq> [] \<Longrightarrow>
             select_p_valor tbl ?L = PScalar (PR_F (snd (tbl ! 0)))"
    by (simp add: select_p_valor_def label_present hd_conv_nth)
  have 3: "tbl = [] \<Longrightarrow> select_p_valor tbl ?L = PNone"
    by (simp add: select_p_valor_def)
  show ?thesis
    using facts(1,2) 1 2 3 reported_loc_PR [of tbl ?L] loc_PR_single [of tbl ?L]
    by auto
qed

theorem p_value_from_factor_row_witness:
  "accepted sample12
   \<and> rows_labelled [(''C(housestyle)'', row_of (Finite 0.01)), (''Residual'', row_of NaN)]
        (effect_label ''housestyle'') = [row_of (Finite 0.01)]
   \<and> p_valor_anova (fst (perform_anova_for_variable lib_ok sample12 ''housestyle''
        ''saleprice'' world0)) = Some (PScalar (PR_F (row_of (Finite 0.01))))"
proof -
  have fit: "ols_fit lib_ok (formula_of ''saleprice'' ''housestyle'') (dropna sample12) = Inr ()"
    and tbl: "anova_lm lib_ok () =
                Inr [(''C(housestyle)'', row_of (Finite 0.01)), (''Residual'', row_of NaN)]"
    by (simp_all add: lib_ok_def)
  have rows: "rows_labelled [(''C(housestyle)'', row_of (Finite 0.01)), (''Residual'', row_of NaN)]
        (effect_label ''housestyle'') = [row_of (Finite 0.01)]"
    by (simp add: rows_labelled_def effect_label_def)
  from p_value_from_factor_row [OF accepted_sample12 fit tbl run_lib_ok] rows accepted_sample12
  show ?thesis
    by (simp add: run_lib_ok)
qed

section \<open>The normality check\<close>

lemma index_from_first:
  "i < length xs \<Longrightarrow> float_eq (xs ! i) v \<Longrightarrow> (\<forall>j<i. \<not> float_eq (xs ! j) v)
     \<Longrightarrow> index_from k xs v = Inr (k + i)"
proof (induction xs arbitrary: i k)
  case Nil
  then show ?case by simp
next
  case (Cons x xs)
  show ?case
  proof (cases i)
    case 0
    with Cons.prems show ?thesis by simp
  next
    case (Suc i')
    with Cons.prems have "\<not> float_eq x v" by auto
    moreover from Suc Cons.prems have "index_from (Suc k) xs v = Inr (Suc k + i')"
      by (intro Cons.IH) auto
    ultimately show ?thesis using Suc by simp
  qed
qed

lemma list_index_first:
  "i < length xs \<Longrightarrow> float_eq (xs ! i) v \<Longrightarrow> (\<forall>j<i. \<not> float_eq (xs ! j) v)
     \<Longrightarrow> list_index xs v = Inr i"
  using index_from_first [of i xs v 0] by (simp add: list_index_def)

lemma index_from_sound:
  "index_from k xs v = Inr n \<Longrightarrow>
     k \<le> n \<and> n - k < length xs \<and> float_eq (xs ! (n - k)) v
     \<and> (\<forall>j < n - k. \<not> float_eq (xs ! j) v)"
proof (induction xs arbitrary: k)
  case Nil
  then show ?case by simp
next
  case (Cons x xs)
  show ?case
  proof (cases "float_eq x v")
    case True
    with Cons.prems show ?thesis by simp
  next
    case False
    with Cons.prems have "index_from (Suc k) xs v = Inr n" by simp
    from Cons.IH [OF this] have a: "Suc k \<le> n" and b: "n - Suc k < length xs"
      and c: "float_eq (xs ! (n - Suc k)) v" and d: "\<forall>j < n - Suc k. \<not> float_eq (xs ! j) v"
      by auto
    from a have e: "n - k = Suc (n - Suc k)" by simp
    show ?thesis
      using a b c d False unfolding e by (auto simp: nth_Cons')
  qed
qed

lemma ad_verdict_at:
  assumes "i < length (significance_level ad)"
    and "float_eq (significance_level ad ! i) (Finite 5)"
    and "\<forall>j<i. \<not> float_eq (significance_level ad ! j) (Finite 5)"
    and "i < length (critical_values ad)"
  shows "ad_verdict ad = Some (float_lt (statistic ad) (critical_values ad ! i))"
  using assms list_index_first [of i "significance_level ad" "Finite 5"]
  by (simp add: ad_verdict_def np_getitem_def)

lemma check_normalidade_facts:
  assumes pre: "shapiro_test r = None" "anderson_test r = None" "normalidade_ok r = None"
    and run: "check_normalidade lib res (r, w) = (x, (r', w'))"
  shows "\<exists>t. calls w' = calls w @ t \<and> normality_facts lib res r' t"
  using assms
  unfolding check_normalidade_def monad_defs normality_facts_def ad_verdict_def result_of_def
  by (auto simp: is_normality_def split: sum.splits prod.splits if_splits)

lemma normality_facts_cong:
  assumes "shapiro_test r' = shapiro_test r" "anderson_test r' = anderson_test r"
    "normalidade_ok r' = normalidade_ok r" "filter is_normality t' = filter is_normality t"
  shows "normality_facts lib res r' t' = normality_facts lib res r t"
  using assms by (simp add: normality_facts_def)

lemma perform_normality_facts:
  assumes acc: "accepted df"
    and fit: "ols_fit lib (formula_of col_preco vcat) (dropna df) = Inr modelo"
    and tbl: "anova_lm lib modelo = Inr tbl"
    and run: "perform_anova_for_variable lib df vcat col_preco w = (r, w')"
  shows "normality_facts lib (resid lib modelo) r (new_calls w w')"
proof -
  let ?res = "resid lib modelo"
  let ?r1 = "new_results vcat\<lparr>anova_table := Some tbl,
                p_valor_anova := Some (select_p_valor tbl (effect_label vcat)),
                residuos_count := Some (length ?res)\<rparr>"
  let ?c1 = "[Call_ols (formula_of col_preco vcat) (dropna df), Call_anova_lm modelo]"
  let ?w1 = "w\<lparr>calls := calls w @ ?c1\<rparr>"
  obtain x r2 w2 where chk: "check_normalidade lib ?res (?r1, ?w1) = (x, (r2, w2))"
    by (metis surj_pair)
  have "shapiro_test ?r1 = None" "anderson_test ?r1 = None" "normalidade_ok ?r1 = None"
    by (simp_all add: new_results_def)
  from check_normalidade_facts [OF this chk] obtain t2 where
    w2: "calls w2 = calls ?w1 @ t2" and f2: "normality_facts lib ?res r2 t2"
    by blast
  obtain y r3 w3 where rest: "after_fit lib (dropna df) vcat ?res (?r1, ?w1) = (y, (r3, w3))"
    by (metis surj_pair)
  have kept: "shapiro_test r3 = shapiro_test r2 \<and> anderson_test r3 = anderson_test r2
      \<and> normalidade_ok r3 = normalidade_ok r2
      \<and> (\<exists>t3. calls w3 = calls w2 @ t3 \<and> filter is_normality t3 = [])"
  proof (cases x)
    case (Inl e)
    with chk rest have "r3 = r2" "w3 = w2"
      by (simp_all add: after_fit_def bindE_def)
    then show ?thesis by simp
  next
    case (Inr n)
    with chk rest have "after_normalidade lib (dropna df) vcat ?res n (r2, w2) = (y, (r3, w3))"
      by (simp add: after_fit_def bindE_def)
    with after_normalidade_keeps(2) [of lib "dropna df" vcat ?res n]
    have "normality_kept (r2, w2) (r3, w3)"
      unfolding keeps_def by (metis snd_conv)
    then show ?thesis by (simp add: normality_kept_def)
  qed
  then obtain t3 where w3: "calls w3 = calls w2 @ t3" and t3: "filter is_normality t3 = []"
    by blast
  from run rest have fin: "finish (y, (r3, w3)) = (r, w')"
    by (simp add: perform_known_fit [OF acc fit tbl])
  note ff = finish_fields [OF fin]
  have "new_calls w w' = ?c1 @ t2 @ t3"
    using ff(1) w2 w3 by (simp add: new_calls_def)
  then have "filter is_normality (new_calls w w') = filter is_normality t2"
    using t3 by (simp add: is_normality_def)
  with kept ff have "normality_facts lib ?res r (new_calls w w') = normality_facts lib ?res r2 t2"
    by (intro normality_facts_cong) simp_all
  with f2 show ?thesis by simp
qed

lemma normality_calls:
  assumes "filter is_normality t = cs"
  shows "Call_shapiro xs \<in> set t \<longleftrightarrow> Call_shapiro xs \<in> set cs"
    and "Call_anderson xs \<in> set t \<longleftrightarrow> Call_anderson xs \<in> set cs"
proof -
  have "set cs = {c \<in> set t. is_normality c}"
    using assms by auto
  then show "Call_shapiro xs \<in> set t \<longleftrightarrow> Call_shapiro xs \<in> set cs"
    and "Call_anderson xs \<in> set t \<longleftrightarrow> Call_anderson xs \<in> set cs"
    by (auto simp: is_normality_def)
qed

text \<open>
  Claim C3. For every accepted sample whose fit and Type II table are returned (step 1 of
  the specification), the normality check is chosen by the number of residuals. From 3
  to 5000 residuals the Shapiro-Wilk test is called, the Anderson-Darling test is not,
  and when it returns the verdict is true exactly when its p-value is at least 0.05.
  Above 5000 the Anderson-Darling test is called, Shapiro-Wilk is not, and when it
  returns the verdict is true exactly when its statistic is strictly below the critical
  value at the first position where the significance levels list 5.0. Below 3 neither
  test is called and the verdict stored is false.
\<close>

theorem normality_test_by_residual_count:
  assumes acc: "accepted df"
    and fit: "ols_fit lib (formula_of col_preco vcat) (dropna df) = Inr modelo"
    and tbl: "anova_lm lib modelo = Inr tbl"
    and run: "perform_anova_for_variable lib df vcat col_preco w = (r, w')"
  shows "(3 \<le> length (resid lib modelo) \<and> length (resid lib modelo) \<le> 5000 \<longrightarrow>
            Call_shapiro (resid lib modelo) \<in> set (new_calls w w')
            \<and> (\<forall>xs. Call_anderson xs \<notin> set (new_calls w w'))
            \<and> (\<forall>s p. shapiro lib (resid lib modelo) = Inr (s, p) \<longrightarrow>
                  shapiro_test r = Some (s, p)
                  \<and> normalidade_ok r = Some (float_ge p (Finite 0.05))))
         \<and> (5000 < length (resid lib modelo) \<longrightarrow>
            Call_anderson (resid lib modelo) \<in> set (new_calls w w')
            \<and> (\<forall>xs. Call_shapiro xs \<notin> set (new_calls w w'))
            \<and> (\<forall>ad i. anderson lib (resid lib modelo) = Inr ad
                    \<and> i < length (significance_level ad)
                    \<and> float_eq (significance_level ad ! i) (Finite 5)
                    \<and> (\<forall>j<i. \<not> float_eq (significance_level ad ! j) (Finite 5))
                    \<and> i < length (critical_values ad) \<longrightarrow>
                  anderson_test r = Some ad
                  \<and> normalidade_ok r = Some (float_lt (statistic ad) (critical_values ad ! i))))
         \<and> (length (resid lib modelo) < 3 \<longrightarrow>
            (\<forall>xs. Call_shapiro xs \<notin> set (new_calls w w'))
            \<and> (\<forall>xs. Call_anderson xs \<notin> set (new_calls w w'))
            \<and> shapiro_test r = None \<and> anderson_test r = None
            \<and> normalidade_ok r = Some False)"
proof -
  let ?res = "resid lib modelo" and ?t = "new_calls w w'"
  note nf = perform_normality_facts [OF acc fit tbl run]
  have small: ?thesis if "length ?res < 3"
  proof -
    from nf that have "filter is_normality ?t = []" "shapiro_test r = None"
      "anderson_test r = None" "normalidade_ok r = Some False"
      by (simp_all add: normality_facts_def)
    with normality_calls [OF this(1)] that show ?thesis by simp
  qed
  have mid: ?thesis if "3 \<le> length ?res" "length ?res \<le> 5000"
  proof -
    from nf that have c: "filter is_normality ?t = [Call_shapiro ?res]"
      and "shapiro_test r = result_of (shapiro lib ?res)"
      and "normalidade_ok r =
             map_option (\<lambda>(s, p). float_ge p (Finite 0.05)) (result_of (shapiro lib ?res))"
      by (simp_all add: normality_facts_def)
    with normality_calls [OF c] that show ?thesis
      by (auto simp: result_of_def)
  qed
  have large: ?thesis if "5000 < length ?res"
  proof -
    from nf that have c: "filter is_normality ?t = [Call_anderson ?res]"
      and "anderson_test r = result_of (anderson lib ?res)"
      and "normalidade_ok r = Option.bind (result_of (anderson lib ?res)) ad_verdict"
      by (simp_all add: normality_facts_def)
    with normality_calls [OF c] that show ?thesis
      by (auto simp: result_of_def ad_verdict_at)
  qed
  from small mid large show ?thesis
    by (cases "length ?res < 3"; cases "length ?res \<le> 5000") auto
qed

theorem normality_test_by_residual_count_witness:
  "accepted sample12 \<and> length (resid lib_ok ()) = 10
   \<and> Call_shapiro (resid lib_ok ()) \<in> set (new_calls world0
        (snd (perform_anova_for_variable lib_ok sample12 ''housestyle'' ''saleprice'' world0)))
   \<and> normalidade_ok (fst (perform_anova_for_variable lib_ok sample12 ''housestyle''
        ''saleprice'' world0)) = Some (float_ge (Finite 0.01) (Finite 0.05))"
proof -
  have fit: "ols_fit lib_ok (formula_of ''saleprice'' ''housestyle'') (dropna sample12) = Inr ()"
    and tbl: "anova_lm lib_ok () =
                Inr [(''C(housestyle)'', row_of (Finite 0.01)), (''Residual'', row_of NaN)]"
    and sh: "shapiro lib_ok (resid lib_ok ()) = Inr (Finite 0.9, Finite 0.01)"
    and len: "length (resid lib_ok ()) = 10"
    by (simp_all add: lib_ok_def resid10_size)
  from normality_test_by_residual_count [OF accepted_sample12 fit tbl run_lib_ok] sh len
    accepted_sample12
  show ?thesis
    by (simp add: run_lib_ok)
qed

text \<open>
  The branch above 5000 residuals on a concrete input: Anderson-Darling is called,
  Shapiro-Wilk is not, and the verdict compares 0.5 with the critical value 0.787 of the
  5% level.
\<close>

lemma resid_large_size: "length resid_large = 5001"
  by (simp add: resid_large_def)

lemma ad_norm_lookup:
  "list_index (significance_level ad_norm) (Finite 5) = Inr 2"
  "np_getitem (critical_values ad_norm) 2 = Inr (Finite 0.787)"
  "float_lt (statistic ad_norm) (Finite (787 / 1000))"
  by (simp_all add: ad_norm_def list_index_def np_getitem_def)

lemma run_lib_large:
  "perform_anova_for_variable lib_large sample12 ''housestyle'' ''saleprice'' world0 =
     (\<lparr>var_cat = ''housestyle'',
       plots = [''normalidade'' \<mapsto> Suc 0, ''boxplot'' \<mapsto> Suc (Suc 0)],
       error = None,
       anova_table = Some [(''C(housestyle)'', row_of (Finite 0.01)), (''Residual'', row_of NaN)],
       p_valor_anova = Some (PScalar (Finite 0.01)),
       residuos_count = Some 5001,
       shapiro_test = None,
       anderson_test = Some ad_norm,
       normalidade_ok = Some True,
       levene_test = Some (Finite 0, Finite 1),
       homocedasticidade_ok = Some True,
       kruskal_test = None\<rparr>,
      \<lparr>figs = 2,
       calls = [Call_ols ''saleprice ~ C(housestyle)'' clean10, Call_anova_lm (),
                Call_anderson resid_large, Call_draw_normalidade resid_large ''housestyle'',
                Call_levene groups10, Call_draw_boxplot clean10 None]\<rparr>)"
  by (simp add: perform_accepted accepted_sample12 try_body_def phase_defs monad_defs
      new_results_def sample12_simps lib_large_def lib_ok_def world0_def float_ge_def
      select_p_valor_def loc_PR_def row_of_def formula_of_def effect_label_def
      resid_large_size ad_norm_lookup)

section \<open>The Selector does not read the world\<close>

lemma world_blind_bind:
  assumes m: "world_blind m" and f: "\<And>a. world_blind (f a)"
  shows "world_blind (bindE m f)"
proof -
  have "fst (bindE m f s1) = fst (bindE m f s2)
        \<and> alike c1 c2 (snd (bindE m f s1)) (snd (bindE m f s2))"
    if al: "alike c1 c2 s1 s2" for c1 c2 s1 s2
  proof -
    obtain x1 t1 x2 t2 where m1: "m s1 = (x1, t1)" and m2: "m s2 = (x2, t2)"
      by (metis surj_pair)
    from m al have "fst (m s1) = fst (m s2) \<and> alike c1 c2 (snd (m s1)) (snd (m s2))"
      unfolding world_blind_def by blast
    with m1 m2 have x: "x2 = x1" and al': "alike c1 c2 t1 t2"
      by simp_all
    show ?thesis
    proof (cases x1)
      case (Inl e)
      with x m1 m2 al' show ?thesis by (simp add: bindE_def)
    next
      case (Inr a)
      from f [of a] al' have "fst (f a t1) = fst (f a t2)
          \<and> alike c1 c2 (snd (f a t1)) (snd (f a t2))"
        unfolding world_blind_def by blast
      with x m1 m2 Inr show ?thesis by (simp add: bindE_def)
    qed
  qed
  then show ?thesis
    unfolding world_blind_def by blast
qed

lemma world_blind_phases:
  "world_blind (fit_anova lib df_var vcat formula)"
  "world_blind (check_normalidade lib residuos)"
  "world_blind (plot_normalidade lib residuos vcat)"
  "world_blind (check_homocedasticidade lib df_var)"
  "world_blind (run_kruskal lib df_var n h)"
  "world_blind (plot_boxplot lib df_var)"
  unfolding world_blind_def alike_def stats_of_def phase_defs monad_defs
  by (auto split: sum.splits prod.splits)

lemma try_body_blind: "world_blind (try_body lib df_var vcat formula)"
  unfolding try_body_def
  by (intro world_blind_bind world_blind_phases)

lemma perform_blind:
  assumes r1: "perform_anova_for_variable lib df vcat col_preco w1 = (r1, w1')"
    and r2: "perform_anova_for_variable lib df vcat col_preco w2 = (r2, w2')"
  shows "stats_of r1 = stats_of r2 \<and> new_calls w1 w1' = new_calls w2 w2'"
proof (cases "accepted df")
  case False
  with r1 r2 show ?thesis
    by (auto simp: perform_rejected new_calls_def)
next
  case True
  let ?body = "try_body lib (dropna df) vcat (formula_of col_preco vcat)"
  obtain x1 a1 b1 x2 a2 b2 where
    b1: "?body (new_results vcat, w1) = (x1, (a1, b1))" and
    b2: "?body (new_results vcat, w2) = (x2, (a2, b2))"
    by (metis surj_pair)
  have "alike (calls w1) (calls w2) (new_results vcat, w1) (new_results vcat, w2)"
    by (simp add: alike_def)
  with try_body_blind [of lib "dropna df" vcat "formula_of col_preco vcat"]
  have "fst (?body (new_results vcat, w1)) = fst (?body (new_results vcat, w2))
      \<and> alike (calls w1) (calls w2) (snd (?body (new_results vcat, w1)))
           (snd (?body (new_results vcat, w2)))"
    unfolding world_blind_def by blast
  with b1 b2 have x: "x2 = x1" and al: "alike (calls w1) (calls w2) (a1, b1) (a2, b2)"
    by simp_all
  from al obtain t where st: "stats_of a1 = stats_of a2"
    and c1: "calls b1 = calls w1 @ t" and c2: "calls b2 = calls w2 @ t"
    by (auto simp: alike_def)
  from r1 b1 True have f1: "w1' = b1" "r1 = (case x1 of Inl e \<Rightarrow> a1\<lparr>error := Some e\<rparr> | Inr u \<Rightarrow> a1)"
    by (auto simp: perform_accepted split: sum.splits)
  from r2 b2 True have f2: "w2' = b2" "r2 = (case x2 of Inl e \<Rightarrow> a2\<lparr>error := Some e\<rparr> | Inr u \<Rightarrow> a2)"
    by (auto simp: perform_accepted split: sum.splits)
  from st x f1(2) f2(2) have "stats_of r1 = stats_of r2"
    by (auto simp: stats_of_def split: sum.splits)
  moreover from c1 c2 f1(1) f2(1) have "new_calls w1 w1' = new_calls w2 w2'"
    by (simp add: new_calls_def)
  ultimately show ?thesis by simp
qed

lemma run_lib_ok_later:
  "perform_anova_for_variable lib_ok sample12 ''housestyle'' ''saleprice'' world_later =
     (\<lparr>var_cat = ''housestyle'',
       plots = [''normalidade'' \<mapsto> 5, ''boxplot'' \<mapsto> 6],
       error = None,
       anova_table = Some [(''C(housestyle)'', row_of (Finite 0.01)), (''Residual'', row_of NaN)],
       p_valor_anova = Some (PScalar (Finite 0.01)),
       residuos_count = Some 10,
       shapiro_test = Some (Finite 0.9, Finite 0.01),
       anderson_test = None,
       normalidade_ok = Some False,
       levene_test = Some (Finite 0, Finite 1),
       homocedasticidade_ok = Some True,
       kruskal_test = Some (Finite 6.8, Finite 0.009)\<rparr>,
      \<lparr>figs = 6,
       calls = [Call_anova_lm (),
                Call_ols ''saleprice ~ C(housestyle)'' clean10, Call_anova_lm (),
                Call_shapiro resid10, Call_draw_normalidade resid10 ''housestyle'',
                Call_levene groups10, Call_kruskal groups10,
                Call_draw_boxplot clean10 None]\<rparr>)"
  by (simp add: perform_accepted accepted_sample12 try_body_def phase_defs monad_defs
      new_results_def sample12_simps lib_ok_def world_later_def float_ge_def
      select_p_valor_def loc_PR_def row_of_def formula_of_def effect_label_def)

text \<open>
  Claim C7. Two runs of the Selector on the same sample, from any two worlds (any
  number of figures already open, any calls already made), return records with the same
  statistical content: the same error, ANOVA table, p-value, residual count, test
  results and verdicts, and the same plots present; and they make the same library calls
  with the same arguments. Only the numbers of the figures differ.
\<close>

theorem selector_deterministic:
  "stats_of (fst (perform_anova_for_variable lib df vcat col_preco w1))
     = stats_of (fst (perform_anova_for_variable lib df vcat col_preco w2))
   \<and> new_calls w1 (snd (perform_anova_for_variable lib df vcat col_preco w1))
     = new_calls w2 (snd (perform_anova_for_variable lib df vcat col_preco w2))"
  by (rule perform_blind) simp_all

theorem selector_deterministic_witness:
  "stats_of (fst (perform_anova_for_variable lib_ok sample12 ''housestyle'' ''saleprice'' world0))
     = stats_of (fst (perform_anova_for_variable lib_ok sample12 ''housestyle'' ''saleprice''
         world_later))
   \<and> plots (fst (perform_anova_for_variable lib_ok sample12 ''housestyle'' ''saleprice'' world0))
        ''boxplot'' = Some 2
   \<and> plots (fst (perform_anova_for_variable lib_ok sample12 ''housestyle'' ''saleprice''
        world_later)) ''boxplot'' = Some 6"
  using selector_deterministic [of lib_ok sample12 "''housestyle''" "''saleprice''" world0 world_later]
  by (simp add: run_lib_ok run_lib_ok_later)

section \<open>Exceptions end in the record, and the loop goes on\<close>

lemmas raise_defs = quiet_def failed_def raised_by_def exn_of_def is_median_order_def

lemma fit_anova_raises:
  "hoareE (since k (quiet lib)) (fit_anova lib df_var vcat formula)
     (\<lambda>_. since k (quiet lib)) (\<lambda>e. since k (failed lib e))"
  unfolding hoareE_def fit_anova_def monad_defs since_def raise_defs
  by (auto split: sum.splits prod.splits)

lemma check_normalidade_raises:
  "hoareE (since k (quiet lib)) (check_normalidade lib residuos)
     (\<lambda>_. since k (quiet lib)) (\<lambda>e. since k (failed lib e))"
  unfolding hoareE_def check_normalidade_def monad_defs since_def raise_defs
  by (auto split: sum.splits prod.splits)

lemma plot_normalidade_raises:
  "hoareE (since k (quiet lib)) (plot_normalidade lib residuos vcat)
     (\<lambda>_. since k (quiet lib)) (\<lambda>e. since k (failed lib e))"
  unfolding hoareE_def plot_normalidade_def monad_defs since_def raise_defs
  by (auto split: sum.splits prod.splits)

lemma check_homocedasticidade_raises:
  "hoareE (since k (quiet lib)) (check_homocedasticidade lib df_var)
     (\<lambda>_. since k (quiet lib)) (\<lambda>e. since k (failed lib e))"
  unfolding hoareE_def check_homocedasticidade_def monad_defs since_def raise_defs
  by (auto split: sum.splits prod.splits)

lemma run_kruskal_raises_triple:
  "hoareE (since k (quiet lib)) (run_kruskal lib df_var n h)
     (\<lambda>_. since k (quiet lib)) (\<lambda>e. since k (failed lib e))"
  unfolding hoareE_def run_kruskal_def monad_defs since_def raise_defs
  by (auto split: sum.splits prod.splits)

lemma plot_boxplot_raises:
  "hoareE (since k (quiet lib)) (plot_boxplot lib df_var)
     (\<lambda>_. since k (quiet lib)) (\<lambda>e. since k (failed lib e))"
  unfolding hoareE_def plot_boxplot_def order_boxplot_def monad_defs since_def raise_defs
  by (auto split: sum.splits prod.splits)

lemma try_body_raises:
  "hoareE (since k (quiet lib)) (try_body lib df_var vcat formula)
     (\<lambda>_. since k (quiet lib)) (\<lambda>e. since k (failed lib e))"
  unfolding try_body_def
  apply (rule hoareE_bind [where R = "\<lambda>_. since k (quiet lib)"])
   apply (rule fit_anova_raises)
  apply (rule hoareE_bind [where R = "\<lambda>_. since k (quiet lib)"])
   apply (rule check_normalidade_raises)
  apply (rule hoareE_bind [where R = "\<lambda>_. since k (quiet lib)"])
   apply (rule plot_normalidade_raises)
  apply (rule hoareE_bind [where R = "\<lambda>_. since k (quiet lib)"])
   apply (rule check_homocedasticidade_raises)
  apply (rule hoareE_bind [where R = "\<lambda>_. since k (quiet lib)"])
   apply (rule run_kruskal_raises_triple)
  apply (rule plot_boxplot_raises)
  done

lemma perform_raises:
  assumes acc: "accepted df"
    and run: "perform_anova_for_variable lib df vcat col_preco w = (r, w')"
    and c: "c \<in> set (new_calls w w')" "\<not> is_median_order c" "raised_by lib c = Some e"
  shows "error r = Some e"
proof -
  obtain x r0 w0 where body:
    "try_body lib (dropna df) vcat (formula_of col_preco vcat) (new_results vcat, w) = (x, (r0, w0))"
    by (metis surj_pair)
  have pre: "since (length (calls w)) (quiet lib) (new_results vcat, w)"
    by (simp add: since_def quiet_def)
  note post = hoareE_run [OF try_body_raises pre body]
  from run body acc have w': "w' = w0"
    by (auto simp: perform_accepted split: sum.splits)
  show ?thesis
  proof (cases x)
    case (Inl e')
    with post have "failed lib e' r0 (new_calls w w0)"
      by (simp add: since_def new_calls_def)
    with c w' have "e' = e"
      by (auto simp: failed_def)
    with run body acc Inl show ?thesis
      by (auto simp: perform_accepted)
  next
    case (Inr u)
    with post have "quiet lib r0 (new_calls w w0)"
      by (simp add: since_def new_calls_def)
    with c w' show ?thesis
      by (auto simp: quiet_def)
  qed
qed

lemma perform_fit_raises:
  assumes acc: "accepted df"
    and fit: "ols_fit lib (formula_of col_preco vcat) (dropna df) = Inl e"
    and run: "perform_anova_for_variable lib df vcat col_preco w = (r, w')"
  shows "error r = Some e"
  using run fit by (auto simp: perform_accepted [OF acc] try_body_def fit_anova_def monad_defs)

lemma loop_skips_guard:
  "loop_skips d \<longleftrightarrow> dropna d = [] \<or> nunique (map fst (dropna d)) < 2"
  by (simp add: loop_skips_def nunique_def length_remdups_card_conv)

lemma render_raises_iff:
  "snd (render r) = Some x \<longleftrightarrow>
     anova_table r \<noteq> None \<and> (\<exists>ps. p_valor_anova r = Some (PSeries ps)) \<and> x = series_truth_msg"
  by (auto simp: render_def render_anova_def split: option.splits pvalue.splits prod.splits)

lemma analyse_variable_agrees:
  assumes "analyse_variable lib dfs coluna_preco v w = (out, w')"
  shows "outcome_of_selector lib (dfs v) v coluna_preco w0 out"
proof (cases "loop_skips (dfs v)")
  case True
  with assms show ?thesis
    by (auto simp: analyse_variable_def Let_def loop_skips_guard outcome_of_selector_def)
next
  case False
  obtain r1 w1 where p1:
    "perform_anova_for_variable lib (dropna (dfs v)) v coluna_preco w = (r1, w1)"
    by (metis surj_pair)
  obtain r0 w0' where p0:
    "perform_anova_for_variable lib (dropna (dfs v)) v coluna_preco w0 = (r0, w0')"
    by (metis surj_pair)
  from perform_blind [OF p1 p0] have st: "stats_of r1 = stats_of r0" by simp
  then have er: "error r1 = error r0" by (simp add: stats_of_def)
  obtain page x where rn: "render r1 = (page, x)"
    by (metis surj_pair)
  from assms False p1 rn have out:
    "out = (case error r1 of Some e \<Rightarrow> Failed e
            | None \<Rightarrow> (case x of None \<Rightarrow> Rendered r1 page | Some e \<Rightarrow> Crashed r1 page e))"
    by (auto simp: analyse_variable_def Let_def loop_skips_guard split: option.splits)
  show ?thesis
    unfolding outcome_of_selector_def using False out st er rn p0
    by (auto split: option.splits)
qed

lemma analysis_loop_outcomes:
  "(v, out) \<in> set (fst (analysis_loop lib dfs coluna_preco vars w))
     \<Longrightarrow> outcome_of_selector lib (dfs v) v coluna_preco w0 out"
proof (induction vars arbitrary: w)
  case Nil
  then show ?case by simp
next
  case (Cons u vars)
  obtain o1 w1 where a: "analyse_variable lib dfs coluna_preco u w = (o1, w1)"
    by (metis surj_pair)
  obtain outs w2 where l: "analysis_loop lib dfs coluna_preco vars w1 = (outs, w2)"
    by (metis surj_pair)
  from Cons.prems a l have "(v, out) = (u, o1) \<or> (v, out) \<in> set outs"
    by (auto split: if_splits)
  then show ?case
  proof
    assume "(v, out) = (u, o1)"
    with analyse_variable_agrees [OF a] show ?thesis by simp
  next
    assume "(v, out) \<in> set outs"
    with l Cons.IH [of w1] show ?thesis by simp
  qed
qed

lemma analysis_loop_complete:
  "(\<forall>(v, out) \<in> set (fst (analysis_loop lib dfs coluna_preco vars w)). \<not> is_crashed out)
     \<Longrightarrow> map fst (fst (analysis_loop lib dfs coluna_preco vars w)) = vars"
proof (induction vars arbitrary: w)
  case Nil
  show ?case by simp
next
  case (Cons u vars)
  obtain o1 w1 where a: "analyse_variable lib dfs coluna_preco u w = (o1, w1)"
    by (metis surj_pair)
  obtain outs w2 where l: "analysis_loop lib dfs coluna_preco vars w1 = (outs, w2)"
    by (metis surj_pair)
  from Cons.prems a have nc: "\<not> is_crashed o1"
    by (auto split: if_splits prod.splits)
  with Cons.prems a l have "\<forall>(v, out) \<in> set outs. \<not> is_crashed out"
    by auto
  with Cons.IH [of w1] l have "map fst outs = vars" by simp
  with a l nc show ?case by simp
qed

lemma analysis_loop_prefix:
  "\<exists>rest. vars = map fst (fst (analysis_loop lib dfs coluna_preco vars w)) @ rest"
proof (induction vars arbitrary: w)
  case Nil
  show ?case by simp
next
  case (Cons u vars)
  obtain o1 w1 where a: "analyse_variable lib dfs coluna_preco u w = (o1, w1)"
    by (metis surj_pair)
  obtain outs w2 where l: "analysis_loop lib dfs coluna_preco vars w1 = (outs, w2)"
    by (metis surj_pair)
  from Cons.IH [of w1] l obtain rest where "vars = map fst outs @ rest" by auto
  with a l show ?case by (cases "is_crashed o1") auto
qed

lemma analysis_loop_after_error:
  assumes ns: "\<not> loop_skips (dfs v)"
    and er: "error (fst (perform_anova_for_variable lib (dropna (dfs v)) v coluna_preco w)) = Some e"
  shows "analysis_loop lib dfs coluna_preco (v # rest) w =
           (case analysis_loop lib dfs coluna_preco rest
                   (snd (perform_anova_for_variable lib (dropna (dfs v)) v coluna_preco w)) of
              (outs, w'') \<Rightarrow> ((v, Failed e) # outs, w''))"
proof -
  from ns er have "analyse_variable lib dfs coluna_preco v w =
      (Failed e, snd (perform_anova_for_variable lib (dropna (dfs v)) v coluna_preco w))"
    by (auto simp: analyse_variable_def Let_def loop_skips_guard split: prod.splits)
  then show ?thesis by simp
qed

lemma dropna_clean10: "dropna clean10 = clean10"
  by (simp add: clean10_def dropna_def)

lemma accepted_clean10: "accepted clean10"
  by (simp add: accepted_guard dropna_clean10 clean10_size)

lemma not_skipped_sample12: "\<not> loop_skips sample12"
  by (simp add: loop_skips_guard dropna_sample12 clean10_size) (simp add: clean10_def)

lemma run_lotshape:
  "perform_anova_for_variable lib_lotshape_fails clean10 ''lotshape'' ''saleprice'' world0 =
     (new_results ''lotshape''\<lparr>error := Some ''fit failed''\<rparr>, world_after_lotshape)"
  by (simp add: perform_accepted accepted_clean10 dropna_clean10 try_body_def phase_defs
      monad_defs lib_lotshape_fails_def lib_ok_def world0_def world_after_lotshape_def
      formula_of_def)

lemma run_housestyle_after_lotshape:
  "perform_anova_for_variable lib_lotshape_fails clean10 ''housestyle'' ''saleprice''
       world_after_lotshape =
     (record_housestyle,
      \<lparr>figs = 2,
       calls = [Call_ols ''saleprice ~ C(lotshape)'' clean10,
                Call_ols ''saleprice ~ C(housestyle)'' clean10, Call_anova_lm (),
                Call_shapiro resid10, Call_draw_normalidade resid10 ''housestyle'',
                Call_levene groups10, Call_kruskal groups10,
                Call_draw_boxplot clean10 None]\<rparr>)"
  by (simp add: perform_accepted accepted_clean10 dropna_clean10 try_body_def phase_defs
      monad_defs new_results_def clean10_size grupos_validos_clean10 groups10_size resid10_size
      lib_lotshape_fails_def lib_ok_def world_after_lotshape_def float_ge_def
      select_p_valor_def loc_PR_def row_of_def formula_of_def effect_label_def
      record_housestyle_def)

lemma render_housestyle: "render record_housestyle = (page_housestyle, None)"
  by (simp add: render_def render_anova_def render_pressupostos_def render_boxplot_def
      record_housestyle_def page_housestyle_def)

lemma loop_housestyle:
  "fst (analysis_loop lib_lotshape_fails (\<lambda>v. sample12) ''saleprice'' [''housestyle'']
          world_after_lotshape) =
     [(''housestyle'', Rendered record_housestyle page_housestyle)]"
proof -
  have "error record_housestyle = None"
    by (simp add: record_housestyle_def)
  then have "fst (analyse_variable lib_lotshape_fails (\<lambda>v. sample12) ''saleprice'' ''housestyle''
          world_after_lotshape) = Rendered record_housestyle page_housestyle"
    using not_skipped_sample12
    by (simp add: analyse_variable_def Let_def loop_skips_guard dropna_sample12
        run_housestyle_after_lotshape render_housestyle)
  then show ?thesis
    by (auto split: prod.splits)
qed

text \<open>
  Claim C5. For every accepted sample, when a library call made by the Selector (the
  fit, the ANOVA table, a statistical test, a drawing call) raises, the Selector still
  returns a record, and the record's error is the text of that exception; in particular
  an exception of the fit. The one exception is the grouped median, whose exception the
  code swallows on purpose. In the loop, when the Selector returns an error record for a
  variable, that variable is shown as failed with that error and the loop goes on with
  the remaining variables, from the world the Selector left. Every outcome of the loop
  is the one that the Selector's record on that variable's own data calls for, from
  whatever world it is computed: failed exactly when that record has an error, whatever
  happened to the other variables. The variables with an outcome are the first of the
  selected ones, and all of them unless the rendering of a record without error raised,
  which is the only way the loop ends early.
\<close>

theorem exceptions_are_surfaced:
  "(accepted df \<and> perform_anova_for_variable lib df vcat col_preco w = (r, w') \<longrightarrow>
      (\<forall>c \<in> set (new_calls w w'). \<forall>e.
          \<not> is_median_order c \<and> raised_by lib c = Some e \<longrightarrow> error r = Some e)
      \<and> (\<forall>e. ols_fit lib (formula_of col_preco vcat) (dropna df) = Inl e \<longrightarrow> error r = Some e))
   \<and> (\<not> loop_skips (dfs v)
        \<and> error (fst (perform_anova_for_variable lib (dropna (dfs v)) v coluna_preco wl)) = Some x
      \<longrightarrow> analysis_loop lib dfs coluna_preco (v # rest) wl =
            (case analysis_loop lib dfs coluna_preco rest
                    (snd (perform_anova_for_variable lib (dropna (dfs v)) v coluna_preco wl)) of
               (outs, w'') \<Rightarrow> ((v, Failed x) # outs, w'')))
   \<and> (\<forall>u out. (u, out) \<in> set (fst (analysis_loop lib dfs coluna_preco vars wl)) \<longrightarrow>
          outcome_of_selector lib (dfs u) u coluna_preco w0 out)
   \<and> (\<exists>later. vars = map fst (fst (analysis_loop lib dfs coluna_preco vars wl)) @ later)
   \<and> ((\<forall>(u, out) \<in> set (fst (analysis_loop lib dfs coluna_preco vars wl)). \<not> is_crashed out)
        \<longrightarrow> map fst (fst (analysis_loop lib dfs coluna_preco vars wl)) = vars)"
  using perform_raises [of df lib vcat col_preco w r w']
    perform_fit_raises [of df lib col_preco vcat _ w r w']
    analysis_loop_after_error [of dfs v lib coluna_preco wl x rest]
    analysis_loop_outcomes [of _ _ lib dfs coluna_preco vars wl w0]
    analysis_loop_prefix [of vars lib dfs coluna_preco wl]
    analysis_loop_complete [of lib dfs coluna_preco vars wl]
  by blast

theorem exceptions_are_surfaced_witness:
  "accepted clean10
   \<and> ols_fit lib_lotshape_fails (formula_of ''saleprice'' ''lotshape'') (dropna clean10)
       = Inl ''fit failed''
   \<and> \<not> loop_skips sample12
   \<and> error (fst (perform_anova_for_variable lib_lotshape_fails (dropna sample12) ''lotshape''
        ''saleprice'' world0)) = Some ''fit failed''
   \<and> fst (analysis_loop lib_lotshape_fails (\<lambda>v. sample12) ''saleprice''
        [''lotshape'', ''housestyle''] world0)
       = [(''lotshape'', Failed ''fit failed''),
          (''housestyle'', Rendered record_housestyle page_housestyle)]"
proof -
  have fit: "ols_fit lib_lotshape_fails (formula_of ''saleprice'' ''lotshape'') (dropna clean10)
       = Inl ''fit failed''"
    by (simp add: lib_lotshape_fails_def formula_of_def)
  have er: "error (fst (perform_anova_for_variable lib_lotshape_fails (dropna sample12)
        ''lotshape'' ''saleprice'' world0)) = Some ''fit failed''"
    by (simp add: dropna_sample12 run_lotshape)
  have w1: "snd (perform_anova_for_variable lib_lotshape_fails (dropna sample12)
        ''lotshape'' ''saleprice'' world0) = world_after_lotshape"
    by (simp add: dropna_sample12 run_lotshape)
  from exceptions_are_surfaced [where df = clean10 and lib = lib_lotshape_fails
      and vcat = "''lotshape''" and col_preco = "''saleprice''" and w = world0
      and r = "new_results ''lotshape''\<lparr>error := Some ''fit failed''\<rparr>"
      and w' = world_after_lotshape
      and dfs = "\<lambda>v. sample12" and coluna_preco = "''saleprice''" and v = "''lotshape''"
      and rest = "[''housestyle'']" and wl = world0 and x = "''fit failed''"
      and vars = "[''lotshape'', ''housestyle'']" and w0 = world0]
    not_skipped_sample12 er
  have "analysis_loop lib_lotshape_fails (\<lambda>v. sample12) ''saleprice''
          [''lotshape'', ''housestyle''] world0 =
        (case analysis_loop lib_lotshape_fails (\<lambda>v. sample12) ''saleprice'' [''housestyle'']
                world_after_lotshape of
           (outs, w'') \<Rightarrow> ((''lotshape'', Failed ''fit failed'') # outs, w''))"
    unfolding w1 by blast
  then have "fst (analysis_loop lib_lotshape_fails (\<lambda>v. sample12) ''saleprice''
        [''lotshape'', ''housestyle''] world0)
       = (''lotshape'', Failed ''fit failed'')
         # fst (analysis_loop lib_lotshape_fails (\<lambda>v. sample12) ''saleprice'' [''housestyle'']
                world_after_lotshape)"
    by (simp split: prod.splits)
  with loop_housestyle accepted_clean10 fit not_skipped_sample12 er show ?thesis
    by simp
qed

text \<open>
  The one way the loop ends early, on a concrete input: a table that lists the factor's
  row twice makes the reported p-value a Series, line 217 raises while the record is
  rendered, and the variable after it gets no outcome.
\<close>

lemma run_two_factor_rows:
  "fst (perform_anova_for_variable lib_two_factor_rows clean10 ''housestyle'' ''saleprice'' world0) =
     record_housestyle
       \<lparr>anova_table := Some [(''C(housestyle)'', row_of (Finite 0.01)),
                             (''C(housestyle)'', row_of (Finite 0.2))],
        p_valor_anova := Some (PSeries [Finite 0.01, Finite 0.2])\<rparr>"
  by (simp add: perform_accepted accepted_clean10 dropna_clean10 try_body_def phase_defs
      monad_defs new_results_def clean10_size grupos_validos_clean10 groups10_size resid10_size
      lib_two_factor_rows_def lib_ok_def world0_def float_ge_def
      select_p_valor_def loc_PR_def row_of_def formula_of_def effect_label_def
      record_housestyle_def)

lemma loop_stops_when_rendering_raises:
  "map fst (fst (analysis_loop lib_two_factor_rows (\<lambda>v. sample12) ''saleprice''
        [''housestyle'', ''lotshape''] world0)) = [''housestyle'']
   \<and> is_crashed (snd (hd (fst (analysis_loop lib_two_factor_rows (\<lambda>v. sample12) ''saleprice''
        [''housestyle'', ''lotshape''] world0))))"
proof -
  obtain r w1 where run:
    "perform_anova_for_variable lib_two_factor_rows clean10 ''housestyle'' ''saleprice'' world0 = (r, w1)"
    by (metis surj_pair)
  with run_two_factor_rows have r: "r = record_housestyle
       \<lparr>anova_table := Some [(''C(housestyle)'', row_of (Finite 0.01)),
                             (''C(housestyle)'', row_of (Finite 0.2))],
        p_valor_anova := Some (PSeries [Finite 0.01, Finite 0.2])\<rparr>"
    by simp
  then have "error r = None" and "snd (render r) = Some series_truth_msg"
    by (simp_all add: record_housestyle_def render_raises_iff)
  then have "is_crashed (fst (analyse_variable lib_two_factor_rows (\<lambda>v. sample12) ''saleprice''
      ''housestyle'' world0))"
    using not_skipped_sample12 run
    by (auto simp: analyse_variable_def Let_def loop_skips_guard dropna_sample12
        split: prod.splits option.splits)
  then show ?thesis
    by (auto split: prod.splits)
qed

end
